theory Spec2Isabelle
  imports Main "HOL-Library.Word"
begin

section \<open>JavaScript strings\<close>

text \<open>
  A JavaScript string is a sequence of UTF-16 code units: \<open>.length\<close>, \<open>.slice\<close>,
  \<open>.trim\<close> and \<open>.replace\<close> all work on code units, so a string is modelled as a list of
  16-bit words and \<open>length\<close> is exactly \<open>.length\<close>. \<open>js\<close> turns an ASCII literal into
  such a string.
\<close>

type_synonym jsstring = "16 word list"

definition js :: "string \<Rightarrow> jsstring" where
  "js s = map (\<lambda>c. word_of_nat (of_char c)) s"

text \<open>The characters \<open>String.prototype.trim\<close> removes: ECMAScript WhiteSpace and LineTerminator.\<close>

definition isWhiteSpace :: "16 word \<Rightarrow> bool" where
  "isWhiteSpace c =
     (c \<in> set [0x0009, 0x000A, 0x000B, 0x000C, 0x000D, 0x0020, 0x00A0, 0x1680,
                0x2028, 0x2029, 0x202F, 0x205F, 0x3000, 0xFEFF]
      \<or> (0x2000 \<le> c \<and> c \<le> 0x200A))"

definition trim :: "jsstring \<Rightarrow> jsstring" where
  "trim s = rev (dropWhile isWhiteSpace (rev (dropWhile isWhiteSpace s)))"

text \<open>\<open>s.includes(t)\<close>: \<open>t\<close> occurs in \<open>s\<close> as a contiguous block.\<close>

definition startsWith :: "jsstring \<Rightarrow> jsstring \<Rightarrow> bool" where
  "startsWith s t = (take (length t) s = t)"

fun includes_str :: "jsstring \<Rightarrow> jsstring \<Rightarrow> bool" where
  "includes_str [] t = (t = [])"
| "includes_str (c # cs) t = (startsWith (c # cs) t \<or> includes_str cs t)"

text \<open>
  \<open>encodeURIComponent\<close>: the unreserved characters are kept, every other code point is
  written as the percent-escaped octets of its UTF-8 form, and an unpaired surrogate raises
  URIError (the value \<open>None\<close>).
\<close>

definition isUnreserved :: "16 word \<Rightarrow> bool" where
  "isUnreserved c =
     ((0x41 \<le> c \<and> c \<le> 0x5A) \<or> (0x61 \<le> c \<and> c \<le> 0x7A) \<or> (0x30 \<le> c \<and> c \<le> 0x39)
      \<or> c \<in> set (js ''-_.!~*'()''))"

definition isHighSurrogate :: "16 word \<Rightarrow> bool" where
  "isHighSurrogate c = (0xD800 \<le> c \<and> c \<le> 0xDBFF)"

definition isLowSurrogate :: "16 word \<Rightarrow> bool" where
  "isLowSurrogate c = (0xDC00 \<le> c \<and> c \<le> 0xDFFF)"

definition codePoint :: "16 word \<Rightarrow> 16 word \<Rightarrow> nat" where
  "codePoint hi lo = 0x10000 + (unat hi - 0xD800) * 0x400 + (unat lo - 0xDC00)"

definition utf8 :: "nat \<Rightarrow> nat list" where
  "utf8 cp =
     (if cp < 0x80 then [cp]
      else if cp < 0x800 then [0xC0 + cp div 64, 0x80 + cp mod 64]
      else if cp < 0x10000 then [0xE0 + cp div 4096, 0x80 + (cp div 64) mod 64, 0x80 + cp mod 64]
      else [0xF0 + cp div 262144, 0x80 + (cp div 4096) mod 64,
            0x80 + (cp div 64) mod 64, 0x80 + cp mod 64])"

definition hexDigit :: "nat \<Rightarrow> 16 word" where
  "hexDigit n = js ''0123456789ABCDEF'' ! (n mod 16)"

definition percentEncode :: "nat list \<Rightarrow> jsstring" where
  "percentEncode octets = concat (map (\<lambda>b. [0x25, hexDigit (b div 16), hexDigit b]) octets)"

fun encodeURIComponent :: "jsstring \<Rightarrow> jsstring option" where
  "encodeURIComponent [] = Some []"
| "encodeURIComponent (c # cs) =
     (if isUnreserved c then map_option ((#) c) (encodeURIComponent cs)
      else if isHighSurrogate c then
        (case cs of
           [] \<Rightarrow> None
         | d # ds \<Rightarrow>
             if isLowSurrogate d
             then map_option ((@) (percentEncode (utf8 (codePoint c d)))) (encodeURIComponent ds)
             else None)
      else if isLowSurrogate c then None
      else map_option ((@) (percentEncode (utf8 (unat c)))) (encodeURIComponent cs))"

text \<open>Decimal rendering of a non-negative integer, as a template literal prints it.\<close>

fun decimal :: "nat \<Rightarrow> jsstring" where
  "decimal n = (if n < 10 then [hexDigit n] else decimal (n div 10) @ [hexDigit (n mod 10)])"

text \<open>
  A value of type \<open>string | undefined\<close> (an environment variable, an optional field) is
  truthy when it is defined and not the empty string; \<open>a || b\<close> picks \<open>b\<close> otherwise.
\<close>

definition truthy :: "jsstring option \<Rightarrow> bool" where
  "truthy v = (case v of None \<Rightarrow> False | Some s \<Rightarrow> s \<noteq> [])"

definition or_else :: "jsstring option \<Rightarrow> jsstring \<Rightarrow> jsstring" where
  "or_else v d = (case v of None \<Rightarrow> d | Some s \<Rightarrow> if s = [] then d else s)"

section \<open>Input sanitising (geminiService.ts)\<close>

text \<open>\<open>input.trim().slice(0, 2000).replace(/[<>]/g, '')\<close>\<close>

definition sanitizeUserInput :: "jsstring \<Rightarrow> jsstring" where
  "sanitizeUserInput input =
     filter (\<lambda>c. c \<noteq> 0x3C \<and> c \<noteq> 0x3E) (take 2000 (trim input))"

section \<open>Configuration and the outside world\<close>

text \<open>The three entries of \<open>process.env\<close> that the adapters read.\<close>

record env =
  GEMINI_API_KEY :: "jsstring option"
  HUGGINGFACE_API_KEY :: "jsstring option"
  OPENAI_API_KEY :: "jsstring option"

text \<open>
  A thrown value is either an \<open>Error\<close> instance, with its message, or anything else.
  A call that can throw returns \<open>js_exn + 'a\<close>.
\<close>

datatype js_exn = JsError jsstring | NonError

text \<open>
  What the image providers answer. For Hugging Face, \<open>hf_image_base64\<close> is the outcome
  of reading the body as a blob and rendering it in base64 (the three awaited conversions
  of the source, any of which may throw); the error text of a failed response is only
  logged and is left out. For Pollinations the probe is a HEAD request, of which the code
  reads \<open>ok\<close> and the content-type header. For OpenAI, \<open>openai_url\<close> is the outcome of
  parsing the JSON body and reading \<open>data[0].url\<close>: the parse may throw, and the path may
  be absent.
\<close>

record hf_response =
  hf_ok :: bool
  hf_image_base64 :: "js_exn + jsstring"

record probe_response =
  probe_ok :: bool
  probe_content_type :: "jsstring option"

record openai_response =
  openai_ok :: bool
  openai_url :: "js_exn + jsstring option"

text \<open>
  The external services, as oracles from the request to its outcome:
  the Gemini text model (argument: the prompt), once for a whole reply and once for a
  streamed one, the Hugging Face endpoint (token, prompt),
  \<open>Math.random\<close> (already scaled: \<open>Math.floor(Math.random() * 1000000)\<close> is
  \<open>math_random mod 1000000\<close>), the Pollinations probe (URL) and the OpenAI endpoint
  (token, prompt). A streamed reply is the list of its chunks, each the outcome of
  \<open>chunk.text()\<close>, and the error that ends the iteration after them, if any.
\<close>

record gemini_stream =
  stream_chunks :: "(js_exn + jsstring) list"
  stream_failure :: "js_exn option"

record world =
  gemini_generateContent :: "jsstring \<Rightarrow> js_exn + jsstring"
  gemini_generateContentStream :: "jsstring \<Rightarrow> js_exn + gemini_stream"
  huggingface_fetch :: "jsstring \<Rightarrow> jsstring \<Rightarrow> js_exn + hf_response"
  math_random :: nat
  pollinations_head :: "jsstring \<Rightarrow> js_exn + probe_response"
  openai_fetch :: "jsstring \<Rightarrow> jsstring \<Rightarrow> js_exn + openai_response"

section \<open>Image generation adapter (geminiService.ts, generateGeminiImage)\<close>

record GeminiImageResponse =
  gi_imageUrl :: jsstring
  gi_success :: bool
  gi_error :: "jsstring option"

datatype provider = HuggingFace | Pollinations | OpenAI

text \<open>
  Each attempt returns the image URL it obtained, if any, and the list of providers it
  sent a request to. Every failure inside an attempt is caught by the attempt's own
  \<open>try\<close>/\<open>catch\<close> and falls through.
\<close>

definition attempt_huggingface :: "env \<Rightarrow> world \<Rightarrow> jsstring \<Rightarrow> jsstring option \<times> provider list" where
  "attempt_huggingface e w sanitizedPrompt =
     (case HUGGINGFACE_API_KEY e of
        None \<Rightarrow> (None, [])
      | Some key \<Rightarrow>
          if key = [] then (None, [])
          else
            (case huggingface_fetch w key sanitizedPrompt of
               Inl hfError \<Rightarrow> (None, [HuggingFace])
             | Inr response \<Rightarrow>
                 if hf_ok response then
                   (case hf_image_base64 response of
                      Inl hfError \<Rightarrow> (None, [HuggingFace])
                    | Inr base64 \<Rightarrow> (Some (js ''data:image/png;base64,'' @ base64), [HuggingFace]))
                 else (None, [HuggingFace])))"

definition pollinations_url :: "jsstring \<Rightarrow> nat \<Rightarrow> jsstring" where
  "pollinations_url encodedPrompt seed =
     js ''https://image.pollinations.ai/prompt/'' @ encodedPrompt
     @ js ''?width=512&height=512&seed='' @ decimal seed @ js ''&model=flux&nologo=true''"

definition attempt_pollinations :: "world \<Rightarrow> jsstring \<Rightarrow> jsstring option \<times> provider list" where
  "attempt_pollinations w sanitizedPrompt =
     (case encodeURIComponent sanitizedPrompt of
        None \<Rightarrow> (None, [])
      | Some encodedPrompt \<Rightarrow>
          (let seed = math_random w mod 1000000;
               imageUrl = pollinations_url encodedPrompt seed
           in case pollinations_head w imageUrl of
                Inl pollError \<Rightarrow> (None, [Pollinations])
              | Inr testResponse \<Rightarrow>
                  if probe_ok testResponse
                     \<and> (case probe_content_type testResponse of
                           None \<Rightarrow> False
                         | Some ct \<Rightarrow> startsWith ct (js ''image/''))
                  then (Some imageUrl, [Pollinations])
                  else (None, [Pollinations])))"

definition attempt_openai :: "env \<Rightarrow> world \<Rightarrow> jsstring \<Rightarrow> jsstring option \<times> provider list" where
  "attempt_openai e w sanitizedPrompt =
     (case OPENAI_API_KEY e of
        None \<Rightarrow> (None, [])
      | Some key \<Rightarrow>
          if key = [] then (None, [])
          else
            (case openai_fetch w key sanitizedPrompt of
               Inl openaiError \<Rightarrow> (None, [OpenAI])
             | Inr response \<Rightarrow>
                 if openai_ok response then
                   (case openai_url response of
                      Inl openaiError \<Rightarrow> (None, [OpenAI])
                    | Inr url \<Rightarrow> (if truthy url then url else None, [OpenAI]))
                 else (None, [OpenAI])))"

definition placeholder_text :: jsstring where
  "placeholder_text =
     js ''Image generation temporarily unavailable. Trying multiple free services...''"

definition placeholder_base :: jsstring where
  "placeholder_base = js ''https://via.placeholder.com/1024x1024/3498db/ffffff?text=''"

definition image_failure :: "string \<Rightarrow> GeminiImageResponse" where
  "image_failure msg = \<lparr>gi_imageUrl = [], gi_success = False, gi_error = Some (js msg)\<rparr>"

text \<open>
  The body of the outer \<open>try\<close>: the result it returns, or the exception that escapes it,
  with the providers contacted on the way.
\<close>

definition image_try :: "env \<Rightarrow> world \<Rightarrow> jsstring \<Rightarrow> (js_exn + GeminiImageResponse) \<times> provider list" where
  "image_try e w prompt =
     (if \<not> truthy (GEMINI_API_KEY e)
      then (Inr (image_failure ''Gemini API key not configured''), [])
      else
        (let sanitizedPrompt = sanitizeUserInput prompt in
         if sanitizedPrompt = [] then (Inr (image_failure ''Prompt cannot be empty''), [])
         else if length sanitizedPrompt > 2000
         then (Inr (image_failure ''Prompt is too long (max 2000 characters)''), [])
         else
           (case attempt_huggingface e w sanitizedPrompt of
              (Some dataUrl, a) \<Rightarrow>
                (Inr \<lparr>gi_imageUrl = dataUrl, gi_success = True, gi_error = None\<rparr>, a)
            | (None, a) \<Rightarrow>
                (case attempt_pollinations w sanitizedPrompt of
                   (Some imageUrl, b) \<Rightarrow>
                     (Inr \<lparr>gi_imageUrl = imageUrl, gi_success = True, gi_error = None\<rparr>, a @ b)
                 | (None, b) \<Rightarrow>
                     (case attempt_openai e w sanitizedPrompt of
                        (Some imageUrl, c) \<Rightarrow>
                          (Inr \<lparr>gi_imageUrl = imageUrl, gi_success = True,
                                gi_error = Some (js ''Note: This used OpenAI DALL-E (paid). Cost: ~$0.04. Add HUGGINGFACE_API_KEY for free images.'')\<rparr>,
                           a @ b @ c)
                      | (None, c) \<Rightarrow>
                          (case encodeURIComponent placeholder_text of
                             None \<Rightarrow> (Inl (JsError (js ''URI malformed'')), a @ b @ c)
                           | Some encoded \<Rightarrow>
                               (Inr \<lparr>gi_imageUrl = placeholder_base @ encoded, gi_success = True,
                                     gi_error = Some (js ''Image generation services temporarily unavailable. We tried Hugging Face and Pollinations.ai free services.'')\<rparr>,
                                a @ b @ c)))))))"

text \<open>The outer \<open>catch\<close>: what an escaping exception is turned into.\<close>

definition image_catch :: "js_exn \<Rightarrow> GeminiImageResponse" where
  "image_catch err =
     (case err of
        JsError m \<Rightarrow>
          if includes_str m (js ''API_KEY_INVALID'') then image_failure ''Invalid Gemini API key''
          else if includes_str m (js ''QUOTA_EXCEEDED'')
          then image_failure ''API quota exceeded. Please check your billing.''
          else if includes_str m (js ''SAFETY'')
          then image_failure ''Content filtered by safety settings. Try a different prompt.''
          else if includes_str m (js ''MODEL_NOT_FOUND'')
          then image_failure ''Imagen 3.0 model not available. Please check model access.''
          else \<lparr>gi_imageUrl = [], gi_success = False, gi_error = Some m\<rparr>
      | NonError \<Rightarrow> image_failure ''Unknown error'')"

definition generateGeminiImage_traced :: "env \<Rightarrow> world \<Rightarrow> jsstring \<Rightarrow> GeminiImageResponse \<times> provider list" where
  "generateGeminiImage_traced e w prompt =
     (case image_try e w prompt of
        (Inl err, t) \<Rightarrow> (image_catch err, t)
      | (Inr r, t) \<Rightarrow> (r, t))"

definition generateGeminiImage :: "env \<Rightarrow> world \<Rightarrow> jsstring \<Rightarrow> GeminiImageResponse" where
  "generateGeminiImage e w prompt = fst (generateGeminiImage_traced e w prompt)"

definition providers_invoked :: "env \<Rightarrow> world \<Rightarrow> jsstring \<Rightarrow> provider list" where
  "providers_invoked e w prompt = snd (generateGeminiImage_traced e w prompt)"

section \<open>Text generation adapter (geminiService.ts, generateGeminiResponse)\<close>

record GeminiResponse =
  gr_response :: jsstring
  gr_success :: bool
  gr_error :: "jsstring option"

definition text_prompt :: "jsstring \<Rightarrow> jsstring" where
  "text_prompt userMessage =
     js ''You are a helpful AI assistant. Please respond to the following message in a friendly and informative way:\<newline>\<newline>User: ''
     @ userMessage
     @ js ''\<newline>\<newline>Please provide a helpful and engaging response.''"

text \<open>
  The reply stored on quota or overload. Its two emoji (U+1F916, U+1F4A1) are surrogate
  pairs; \<open>image_suggestion\<close> is the sentence of it that recommends the image command.
\<close>

definition image_suggestion :: jsstring where
  "image_suggestion =
     js ''Try typing `/image` followed by your image description to generate pictures instead.''"

definition overloaded_response :: jsstring where
  "overloaded_response =
     [0xD83E, 0xDD16]
     @ js '' I apologize, but the AI text service is temporarily overloaded due to high demand. Please try again in a few minutes.\<newline>\<newline>''
     @ [0xD83D, 0xDCA1]
     @ js '' **Good news:** Image generation is still working! ''
     @ image_suggestion
     @ js ''\<newline>\<newline>Example: `/image a beautiful sunset over mountains`''"

definition is_quota_message :: "jsstring \<Rightarrow> bool" where
  "is_quota_message m =
     (includes_str m (js ''quota'') \<or> includes_str m (js ''limit'')
      \<or> includes_str m (js ''overloaded'') \<or> includes_str m (js ''503''))"

definition text_catch :: "js_exn \<Rightarrow> GeminiResponse" where
  "text_catch err =
     (case err of
        JsError m \<Rightarrow>
          if includes_str m (js ''API_KEY'')
          then \<lparr>gr_response = js ''I apologize, but there's an issue with the AI service configuration.'',
                gr_success = False, gr_error = Some (js ''Invalid API key'')\<rparr>
          else if is_quota_message m
          then \<lparr>gr_response = overloaded_response, gr_success = False,
                gr_error = Some (js ''Service temporarily overloaded'')\<rparr>
          else \<lparr>gr_response = js ''I apologize, but I'm experiencing technical difficulties right now. Please try again later.'',
                gr_success = False, gr_error = Some m\<rparr>
      | NonError \<Rightarrow>
          \<lparr>gr_response = js ''I apologize, but I'm experiencing technical difficulties right now. Please try again later.'',
           gr_success = False, gr_error = Some (js ''Unknown error'')\<rparr>)"

definition generateGeminiResponse :: "env \<Rightarrow> world \<Rightarrow> jsstring \<Rightarrow> GeminiResponse" where
  "generateGeminiResponse e w userMessage =
     (if \<not> truthy (GEMINI_API_KEY e)
      then \<lparr>gr_response = js ''I apologize, but the AI service is not configured. Please check the API key configuration.'',
            gr_success = False, gr_error = Some (js ''Gemini API key not configured'')\<rparr>
      else
        (case gemini_generateContent w (text_prompt userMessage) of
           Inr text \<Rightarrow> \<lparr>gr_response = text, gr_success = True, gr_error = None\<rparr>
         | Inl err \<Rightarrow> text_catch err))"

text \<open>
  The adapter reports quota or overload: the result carries the error tag of that branch.
\<close>

definition reports_overload :: "GeminiResponse \<Rightarrow> bool" where
  "reports_overload r =
     (\<not> gr_success r \<and> gr_error r = Some (js ''Service temporarily overloaded''))"

subsection \<open>Streaming variant (generateGeminiStreamResponse)\<close>

record GeminiStreamResponse =
  gs_chunk :: jsstring
  gs_done :: bool
  gs_success :: bool
  gs_error :: "jsstring option"

definition stream_catch :: "js_exn \<Rightarrow> GeminiStreamResponse" where
  "stream_catch err =
     \<lparr>gs_chunk =
        (case err of
           JsError m \<Rightarrow>
             if includes_str m (js ''API_KEY'')
             then js ''I apologize, but there's an issue with the AI service configuration.''
             else if is_quota_message m then overloaded_response
             else js ''I apologize, but I'm experiencing technical difficulties right now. Please try again later.''
         | NonError \<Rightarrow>
             js ''I apologize, but I'm experiencing technical difficulties right now. Please try again later.''),
      gs_done = True, gs_success = False,
      gs_error = Some (case err of JsError m \<Rightarrow> m | NonError \<Rightarrow> js ''Unknown error'')\<rparr>"

text \<open>A chunk whose text cannot be read is skipped with a warning.\<close>

fun stream_fragments :: "(js_exn + jsstring) list \<Rightarrow> GeminiStreamResponse list" where
  "stream_fragments [] = []"
| "stream_fragments (Inr chunkText # cs) =
     \<lparr>gs_chunk = chunkText, gs_done = False, gs_success = True, gs_error = None\<rparr>
     # stream_fragments cs"
| "stream_fragments (Inl chunkError # cs) = stream_fragments cs"

text \<open>All that the generator yields, in order, when it is read to its end.\<close>

definition generateGeminiStreamResponse :: "env \<Rightarrow> world \<Rightarrow> jsstring \<Rightarrow> GeminiStreamResponse list" where
  "generateGeminiStreamResponse e w userMessage =
     (if \<not> truthy (GEMINI_API_KEY e)
      then [\<lparr>gs_chunk = js ''I apologize, but the AI service is not configured. Please check the API key configuration.'',
             gs_done = True, gs_success = False,
             gs_error = Some (js ''Gemini API key not configured'')\<rparr>]
      else
        (case gemini_generateContentStream w (text_prompt userMessage) of
           Inl err \<Rightarrow> [stream_catch err]
         | Inr result \<Rightarrow>
             stream_fragments (stream_chunks result)
             @ (case stream_failure result of
                  None \<Rightarrow> [\<lparr>gs_chunk = [], gs_done = True, gs_success = True, gs_error = None\<rparr>]
                | Some err \<Rightarrow> [stream_catch err])))"

section \<open>Message store (supabaseClient.ts, chatHistoryService)\<close>

text \<open>
  A row of the table \<open>chat_history\<close>. The store assigns \<open>id\<close> and \<open>created_at\<close> on insert;
  both are opaque to the code, and are modelled as a counter and a logical clock that the
  store advances at every insert, so that successive inserts get increasing timestamps.
\<close>

datatype role = role_user | role_model

datatype content_type = ct_text | ct_image

record NewChatMessage =
  user_id :: jsstring
  role :: role
  content :: jsstring
  content_type :: content_type

record ChatMessage = NewChatMessage +
  msg_id :: nat
  created_at :: nat

text \<open>
  The external database: its rows in insertion order, the two counters, and the outcomes
  of the requests to come (\<open>faults\<close>): the next request fails with the error at the head
  of the list, if there is one, and succeeds otherwise. A failed request changes no row.
  A query ordered by \<open>created_at\<close> is a stable sort of the rows: the store leaves the
  order of equal timestamps open, the model keeps their insertion order.
\<close>

record database =
  rows :: "ChatMessage list"
  next_id :: nat
  clock :: nat
  faults :: "js_exn option list"

definition supabase_request :: "database \<Rightarrow> js_exn option \<times> database" where
  "supabase_request d =
     (case faults d of [] \<Rightarrow> (None, d) | f # fs \<Rightarrow> (f, d\<lparr>faults := fs\<rparr>))"

definition getMessagesForUser :: "jsstring \<Rightarrow> database \<Rightarrow> (js_exn + ChatMessage list) \<times> database" where
  "getMessagesForUser userId d =
     (case supabase_request d of
        (Some error, d') \<Rightarrow> (Inl error, d')
      | (None, d') \<Rightarrow>
          (Inr (sort_key created_at (filter (\<lambda>m. user_id m = userId) (rows d'))), d'))"

text \<open>The row the store creates for an insert: the message with the next id and timestamp.\<close>

definition new_row :: "NewChatMessage \<Rightarrow> database \<Rightarrow> ChatMessage" where
  "new_row message d =
     \<lparr>user_id = user_id message, role = role message,
      content = content message, content_type = content_type message,
      msg_id = next_id d, created_at = clock d\<rparr>"

definition addMessage :: "NewChatMessage \<Rightarrow> database \<Rightarrow> (js_exn + ChatMessage) \<times> database" where
  "addMessage message d =
     (case supabase_request d of
        (Some error, d') \<Rightarrow> (Inl error, d')
      | (None, d') \<Rightarrow>
          (let data = new_row message d'
           in (Inr data,
               d'\<lparr>rows := rows d' @ [data], next_id := next_id d' + 1, clock := clock d' + 1\<rparr>)))"

definition clearUserHistory :: "jsstring \<Rightarrow> database \<Rightarrow> (js_exn + unit) \<times> database" where
  "clearUserHistory userId d =
     (case supabase_request d of
        (Some error, d') \<Rightarrow> (Inl error, d')
      | (None, d') \<Rightarrow> (Inr (), d'\<lparr>rows := filter (\<lambda>m. user_id m \<noteq> userId) (rows d')\<rparr>))"

text \<open>The next \<open>n\<close> requests to the store succeed.\<close>

definition store_available :: "nat \<Rightarrow> database \<Rightarrow> bool" where
  "store_available n d = list_all (\<lambda>f. f = None) (take n (faults d))"

text \<open>
  The counters are ahead of every stored row: a store that starts empty and changes only
  through the three operations stays so.
\<close>

definition store_consistent :: "database \<Rightarrow> bool" where
  "store_consistent d =
     list_all (\<lambda>m. msg_id m < next_id d \<and> created_at m < clock d) (rows d)"

section \<open>RPC layer (context.ts, routers/chat.ts)\<close>

datatype trpc_code = BAD_REQUEST | UNAUTHORIZED | INTERNAL_SERVER_ERROR

text \<open>
  The message of a \<open>TRPCError\<close> is a literal of the code, or, for a rejected input, the
  list of the messages of the schema checks that failed, in the order of the schema.
\<close>

datatype error_message = Message jsstring | ZodIssues "jsstring list"

record TRPCError =
  code :: trpc_code
  message :: error_message

definition trpc_error :: "trpc_code \<Rightarrow> jsstring \<Rightarrow> TRPCError" where
  "trpc_error c m = \<lparr>code = c, message = Message m\<rparr>"

text \<open>
  The call context. Of its three fields only \<open>user\<close> is modelled: the store handle and
  the request are not read by any procedure. \<open>createContext\<close> fills it from the request
  headers \<open>x-user-id\<close>, \<open>x-user-name\<close> and \<open>x-user-email\<close>.
\<close>

record ctx_user =
  sub :: jsstring
  name :: "jsstring option"
  email :: "jsstring option"

record Context =
  user :: "ctx_user option"

record request_headers =
  x_user_id :: "jsstring option"
  x_user_name :: "jsstring option"
  x_user_email :: "jsstring option"

definition or_undefined :: "jsstring option \<Rightarrow> jsstring option" where
  "or_undefined v = (if truthy v then v else None)"

definition createContext :: "request_headers \<Rightarrow> Context" where
  "createContext h =
     (case x_user_id h of
        None \<Rightarrow> \<lparr>user = None\<rparr>
      | Some userId \<Rightarrow>
          if userId = [] then \<lparr>user = None\<rparr>
          else \<lparr>user = Some \<lparr>sub = userId, name = or_undefined (x_user_name h),
                              email = or_undefined (x_user_email h)\<rparr>\<rparr>)"

text \<open>
  A procedure is a chain of middlewares, an input schema and a resolver. A call runs the
  middlewares in order, then checks the input, then runs the resolver; the first error
  ends the call. \<open>t_procedure\<close> is the bare builder \<open>t.procedure\<close>;
  \<open>protectedProcedure\<close> is \<open>t.procedure.use(isAuthenticated)\<close>.
\<close>

type_synonym middleware = "Context \<Rightarrow> TRPCError + Context"

definition isAuthenticated :: middleware where
  "isAuthenticated ctx =
     (case user ctx of
        None \<Rightarrow> Inl (trpc_error UNAUTHORIZED (js ''You must be logged in to access this resource''))
      | Some u \<Rightarrow> Inr (ctx\<lparr>user := Some u\<rparr>))"

fun run_middlewares :: "middleware list \<Rightarrow> Context \<Rightarrow> TRPCError + Context" where
  "run_middlewares [] ctx = Inr ctx"
| "run_middlewares (m # ms) ctx =
     (case m ctx of Inl err \<Rightarrow> Inl err | Inr ctx' \<Rightarrow> run_middlewares ms ctx')"

definition t_procedure :: "middleware list" where
  "t_procedure = []"

definition protectedProcedure :: "middleware list" where
  "protectedProcedure = t_procedure @ [isAuthenticated]"

definition procedure_call ::
  "middleware list \<Rightarrow> ('i \<Rightarrow> jsstring list)
   \<Rightarrow> (Context \<Rightarrow> 'i \<Rightarrow> database \<Rightarrow> (TRPCError + 'o) \<times> database)
   \<Rightarrow> Context \<Rightarrow> 'i \<Rightarrow> database \<Rightarrow> (TRPCError + 'o) \<times> database" where
  "procedure_call middlewares issues resolver ctx input d =
     (case run_middlewares middlewares ctx of
        Inl err \<Rightarrow> (Inl err, d)
      | Inr ctx' \<Rightarrow>
          (case issues input of
             [] \<Rightarrow> resolver ctx' input d
           | i # is \<Rightarrow> (Inl \<lparr>code = BAD_REQUEST, message = ZodIssues (i # is)\<rparr>, d)))"

subsection \<open>Input schemas\<close>

text \<open>\<open>z.string().min(n, msg)\<close> and \<open>z.string().max(n, msg)\<close> compare \<open>.length\<close> with \<open>n\<close>.\<close>

definition z_min :: "nat \<Rightarrow> string \<Rightarrow> jsstring \<Rightarrow> jsstring list" where
  "z_min n msg s = (if length s < n then [js msg] else [])"

definition z_max :: "nat \<Rightarrow> string \<Rightarrow> jsstring \<Rightarrow> jsstring list" where
  "z_max n msg s = (if length s > n then [js msg] else [])"

record history_input =
  h_userId :: jsstring

record sendMessage_input =
  s_message :: jsstring
  s_userId :: jsstring

record generateImage_input =
  g_prompt :: jsstring
  g_userId :: jsstring

definition history_issues :: "history_input \<Rightarrow> jsstring list" where
  "history_issues input = []"

definition sendMessage_issues :: "sendMessage_input \<Rightarrow> jsstring list" where
  "sendMessage_issues input =
     z_min 1 ''Message cannot be empty'' (s_message input)
     @ z_max 2000 ''Message too long'' (s_message input)"

definition generateImageInput :: "generateImage_input \<Rightarrow> jsstring list" where
  "generateImageInput input =
     z_min 1 ''Prompt cannot be empty'' (g_prompt input)
     @ z_max 1000 ''Prompt too long'' (g_prompt input)
     @ z_min 1 ''User ID is required'' (g_userId input)"

subsection \<open>getChatHistory\<close>

record getChatHistory_output =
  gh_success :: bool
  gh_messages :: "ChatMessage list"
  gh_count :: nat

definition getChatHistory_resolver ::
  "Context \<Rightarrow> history_input \<Rightarrow> database \<Rightarrow> (TRPCError + getChatHistory_output) \<times> database" where
  "getChatHistory_resolver ctx input d =
     (case getMessagesForUser (h_userId input) d of
        (Inr messages, d') \<Rightarrow>
          (Inr \<lparr>gh_success = True, gh_messages = messages, gh_count = length messages\<rparr>, d')
      | (Inl error, d') \<Rightarrow>
          (Inl (trpc_error INTERNAL_SERVER_ERROR (js ''Failed to fetch chat history'')), d'))"

definition getChatHistory ::
  "Context \<Rightarrow> history_input \<Rightarrow> database \<Rightarrow> (TRPCError + getChatHistory_output) \<times> database" where
  "getChatHistory = procedure_call t_procedure history_issues getChatHistory_resolver"

subsection \<open>sendMessage\<close>

record sendMessage_output =
  sm_success :: bool
  sm_userMessage :: ChatMessage
  sm_aiMessage :: ChatMessage
  sm_aiResponse :: jsstring
  sm_geminiSuccess :: bool
  sm_geminiError :: "jsstring option"

definition text_row :: "jsstring \<Rightarrow> role \<Rightarrow> jsstring \<Rightarrow> NewChatMessage" where
  "text_row userId r c = \<lparr>user_id = userId, role = r, content = c, content_type = ct_text\<rparr>"

text \<open>
  The \<open>catch\<close> of sendMessage: one attempt to store a generic apology, whose own failure is
  swallowed, then the internal error.
\<close>

definition sendMessage_catch ::
  "jsstring \<Rightarrow> database \<Rightarrow> (TRPCError + sendMessage_output) \<times> database" where
  "sendMessage_catch userId d =
     (case addMessage
             (text_row userId role_model
                (js ''I apologize, but I encountered an error processing your message. Please try again.'')) d of
        (saved, d') \<Rightarrow>
          (Inl (trpc_error INTERNAL_SERVER_ERROR (js ''Failed to process your message'')), d'))"

definition sendMessage_resolver ::
  "env \<Rightarrow> world \<Rightarrow> Context \<Rightarrow> sendMessage_input \<Rightarrow> database
   \<Rightarrow> (TRPCError + sendMessage_output) \<times> database" where
  "sendMessage_resolver e w ctx input d =
     (let userId = s_userId input;
          sanitizedMessage = sanitizeUserInput (s_message input)
      in case addMessage (text_row userId role_user sanitizedMessage) d of
           (Inl error, d1) \<Rightarrow> sendMessage_catch userId d1
         | (Inr userMessage, d1) \<Rightarrow>
             (let geminiResponse = generateGeminiResponse e w sanitizedMessage
              in case addMessage (text_row userId role_model (gr_response geminiResponse)) d1 of
                   (Inl error, d2) \<Rightarrow> sendMessage_catch userId d2
                 | (Inr aiMessage, d2) \<Rightarrow>
                     (Inr \<lparr>sm_success = True, sm_userMessage = userMessage,
                           sm_aiMessage = aiMessage,
                           sm_aiResponse = gr_response geminiResponse,
                           sm_geminiSuccess = gr_success geminiResponse,
                           sm_geminiError = gr_error geminiResponse\<rparr>, d2)))"

definition sendMessage ::
  "env \<Rightarrow> world \<Rightarrow> Context \<Rightarrow> sendMessage_input \<Rightarrow> database
   \<Rightarrow> (TRPCError + sendMessage_output) \<times> database" where
  "sendMessage e w = procedure_call t_procedure sendMessage_issues (sendMessage_resolver e w)"

subsection \<open>clearHistory\<close>

record clearHistory_output =
  ch_success :: bool
  ch_message :: jsstring

definition clearHistory_resolver ::
  "Context \<Rightarrow> history_input \<Rightarrow> database \<Rightarrow> (TRPCError + clearHistory_output) \<times> database" where
  "clearHistory_resolver ctx input d =
     (case clearUserHistory (h_userId input) d of
        (Inr u, d') \<Rightarrow>
          (Inr \<lparr>ch_success = True, ch_message = js ''Chat history cleared successfully''\<rparr>, d')
      | (Inl error, d') \<Rightarrow>
          (Inl (trpc_error INTERNAL_SERVER_ERROR (js ''Failed to clear chat history'')), d'))"

definition clearHistory ::
  "Context \<Rightarrow> history_input \<Rightarrow> database \<Rightarrow> (TRPCError + clearHistory_output) \<times> database" where
  "clearHistory = procedure_call t_procedure history_issues clearHistory_resolver"

subsection \<open>generateImage\<close>

record generateImage_output =
  im_success :: bool
  im_imageUrl :: jsstring
  im_userMessage :: ChatMessage
  im_aiMessage :: ChatMessage
  im_prompt :: jsstring

text \<open>What the \<open>try\<close> block of generateImage can throw: its own \<open>TRPCError\<close>, or a store error.\<close>

datatype thrown = Thrown_TRPCError TRPCError | Thrown js_exn

definition generateImage_try ::
  "env \<Rightarrow> world \<Rightarrow> generateImage_input \<Rightarrow> database
   \<Rightarrow> (thrown + generateImage_output) \<times> database" where
  "generateImage_try e w input d =
     (let prompt = g_prompt input;
          userId = g_userId input;
          sanitizedPrompt = sanitizeUserInput prompt
      in case addMessage (text_row userId role_user sanitizedPrompt) d of
           (Inl error, d1) \<Rightarrow> (Inl (Thrown error), d1)
         | (Inr savedUserMessage, d1) \<Rightarrow>
             (let imageResponse = generateGeminiImage e w sanitizedPrompt
              in if \<not> gi_success imageResponse
                 then (Inl (Thrown_TRPCError
                         (trpc_error INTERNAL_SERVER_ERROR
                            (or_else (gi_error imageResponse) (js ''Failed to generate image'')))), d1)
                 else
                   (case addMessage \<lparr>user_id = userId, role = role_model,
                                     content = gi_imageUrl imageResponse,
                                     content_type = ct_image\<rparr> d1 of
                      (Inl error, d2) \<Rightarrow> (Inl (Thrown error), d2)
                    | (Inr savedAiMessage, d2) \<Rightarrow>
                        (Inr \<lparr>im_success = True, im_imageUrl = gi_imageUrl imageResponse,
                              im_userMessage = savedUserMessage,
                              im_aiMessage = savedAiMessage,
                              im_prompt = sanitizedPrompt\<rparr>, d2))))"

definition generateImage_resolver ::
  "env \<Rightarrow> world \<Rightarrow> Context \<Rightarrow> generateImage_input \<Rightarrow> database
   \<Rightarrow> (TRPCError + generateImage_output) \<times> database" where
  "generateImage_resolver e w ctx input d =
     (case generateImage_try e w input d of
        (Inr result, d') \<Rightarrow> (Inr result, d')
      | (Inl (Thrown_TRPCError error), d') \<Rightarrow> (Inl error, d')
      | (Inl (Thrown error), d') \<Rightarrow>
          (Inl (trpc_error INTERNAL_SERVER_ERROR (js ''Failed to generate image'')), d'))"

definition generateImage ::
  "env \<Rightarrow> world \<Rightarrow> Context \<Rightarrow> generateImage_input \<Rightarrow> database
   \<Rightarrow> (TRPCError + generateImage_output) \<times> database" where
  "generateImage e w = procedure_call t_procedure generateImageInput (generateImage_resolver e w)"

subsection \<open>sendMessageStream\<close>

text \<open>The events of the subscription, by their \<open>type\<close> tag, with the fields of \<open>data\<close>.\<close>

datatype stream_event =
    UserMessageSaved ChatMessage
  | Chunk jsstring jsstring bool
  | Complete ChatMessage jsstring
  | ErrorEvent "ChatMessage option" jsstring

definition processing_error_text :: jsstring where
  "processing_error_text =
     js ''I apologize, but I encountered an error processing your message. Please try again.''"

definition save_error_message ::
  "jsstring \<Rightarrow> jsstring \<Rightarrow> jsstring \<Rightarrow> database \<Rightarrow> stream_event list \<times> database" where
  "save_error_message userId errorMessage err d =
     (case addMessage (text_row userId role_model errorMessage) d of
        (Inr aiMessage, d') \<Rightarrow> ([ErrorEvent (Some aiMessage) err], d')
      | (Inl dbError, d') \<Rightarrow> ([ErrorEvent None (js ''Failed to save error message'')], d'))"

definition sendMessageStream_catch :: "jsstring \<Rightarrow> js_exn \<Rightarrow> database \<Rightarrow> stream_event list \<times> database" where
  "sendMessageStream_catch userId error d =
     save_error_message userId processing_error_text
       (case error of JsError m \<Rightarrow> m | NonError \<Rightarrow> js ''Unknown error'') d"

text \<open>The \<open>for await\<close> loop over the adapter's chunks; it ends at the first \<open>done\<close> chunk.\<close>

fun consume_stream ::
  "jsstring \<Rightarrow> GeminiStreamResponse list \<Rightarrow> jsstring \<Rightarrow> database \<Rightarrow> stream_event list \<times> database" where
  "consume_stream userId [] fullResponse d = ([], d)"
| "consume_stream userId (chunk # chunks) fullResponse d =
     (if \<not> gs_done chunk then
        (case consume_stream userId chunks (fullResponse @ gs_chunk chunk) d of
           (events, d') \<Rightarrow>
             (Chunk (gs_chunk chunk) (fullResponse @ gs_chunk chunk) (gs_success chunk) # events, d'))
      else if gs_success chunk then
        (case addMessage (text_row userId role_model fullResponse) d of
           (Inr aiMessage, d') \<Rightarrow> ([Complete aiMessage fullResponse], d')
         | (Inl error, d') \<Rightarrow> sendMessageStream_catch userId error d')
      else
        save_error_message userId
          (if gs_chunk chunk = [] then processing_error_text else gs_chunk chunk)
          (or_else (gs_error chunk) (js ''Unknown error'')) d)"

definition sendMessageStream_resolver ::
  "env \<Rightarrow> world \<Rightarrow> Context \<Rightarrow> sendMessage_input \<Rightarrow> database
   \<Rightarrow> (TRPCError + stream_event list) \<times> database" where
  "sendMessageStream_resolver e w ctx input d =
     (let userId = s_userId input;
          sanitizedMessage = sanitizeUserInput (s_message input)
      in case addMessage (text_row userId role_user sanitizedMessage) d of
           (Inl error, d1) \<Rightarrow>
             (case sendMessageStream_catch userId error d1 of
                (events, d2) \<Rightarrow> (Inr events, d2))
         | (Inr userMessage, d1) \<Rightarrow>
             (case consume_stream userId (generateGeminiStreamResponse e w sanitizedMessage) [] d1 of
                (events, d2) \<Rightarrow> (Inr (UserMessageSaved userMessage # events), d2)))"

definition sendMessageStream ::
  "env \<Rightarrow> world \<Rightarrow> Context \<Rightarrow> sendMessage_input \<Rightarrow> database
   \<Rightarrow> (TRPCError + stream_event list) \<times> database" where
  "sendMessageStream e w =
     procedure_call t_procedure sendMessage_issues (sendMessageStream_resolver e w)"

text \<open>A call fails as unauthorized.\<close>

definition unauthorized :: "TRPCError + 'a \<Rightarrow> bool" where
  "unauthorized r = (case r of Inl err \<Rightarrow> code err = UNAUTHORIZED | Inr v \<Rightarrow> False)"

section \<open>Example configurations\<close>

text \<open>
  Concrete environments, services and stores on which the theorems below are run:
  a world in which every service is unreachable, variants of it in which one service
  answers, and a store holding one message of each of two users.
\<close>

definition key_free_env :: env where
  "key_free_env =
     \<lparr>GEMINI_API_KEY = Some (js ''gemini-key''), HUGGINGFACE_API_KEY = Some (js ''hf-token''),
      OPENAI_API_KEY = None\<rparr>"

definition no_gemini_env :: env where
  "no_gemini_env = key_free_env\<lparr>GEMINI_API_KEY := None\<rparr>"

definition offline_world :: world where
  "offline_world =
     \<lparr>gemini_generateContent = (\<lambda>prompt. Inl (JsError (js ''fetch failed''))),
      gemini_generateContentStream = (\<lambda>prompt. Inl (JsError (js ''fetch failed''))),
      huggingface_fetch = (\<lambda>key prompt. Inl (JsError (js ''fetch failed''))),
      math_random = 424242,
      pollinations_head = (\<lambda>url. Inl (JsError (js ''fetch failed''))),
      openai_fetch = (\<lambda>key prompt. Inl (JsError (js ''fetch failed'')))\<rparr>"

definition huggingface_world :: world where
  "huggingface_world =
     offline_world\<lparr>huggingface_fetch :=
       (\<lambda>key prompt. Inr \<lparr>hf_ok = True, hf_image_base64 = Inr (js ''iVBORw0KGgo='')\<rparr>)\<rparr>"

definition pollinations_world :: world where
  "pollinations_world =
     offline_world\<lparr>pollinations_head :=
       (\<lambda>url. Inr \<lparr>probe_ok = True, probe_content_type = Some (js ''image/jpeg'')\<rparr>)\<rparr>"

definition paid_env :: env where
  "paid_env = key_free_env\<lparr>OPENAI_API_KEY := Some (js ''openai-key'')\<rparr>"

definition openai_world :: world where
  "openai_world =
     offline_world\<lparr>openai_fetch :=
       (\<lambda>key prompt. Inr \<lparr>openai_ok = True,
                          openai_url = Inr (Some (js ''https://images.example/cat.png''))\<rparr>)\<rparr>"

definition gemini_world :: world where
  "gemini_world = offline_world\<lparr>gemini_generateContent := (\<lambda>prompt. Inr (js ''Hi there''))\<rparr>"

definition overloaded_world :: world where
  "overloaded_world =
     offline_world\<lparr>gemini_generateContent :=
       (\<lambda>prompt. Inl (JsError (js ''[503 Service Unavailable] The model is overloaded.'')))\<rparr>"

definition example_db :: database where
  "example_db =
     \<lparr>rows =
        [\<lparr>user_id = js ''u1'', role = role_user, content = js ''Hello'',
          content_type = ct_text, msg_id = 0, created_at = 0\<rparr>,
         \<lparr>user_id = js ''u2'', role = role_user, content = js ''Bonjour'',
          content_type = ct_text, msg_id = 1, created_at = 1\<rparr>],
      next_id = 2, clock = 2, faults = []\<rparr>"

definition anonymous :: Context where
  "anonymous = \<lparr>user = None\<rparr>"

section \<open>String literals and the sanitiser\<close>

lemma code_unit_inj: "inj (\<lambda>c::char. (word_of_nat (of_char c) :: 16 word))"
proof (rule injI)
  fix a b :: char
  assume eq: "(word_of_nat (of_char a) :: 16 word) = word_of_nat (of_char b)"
  have bound: "\<And>c::char. (of_char c :: nat) < 2 ^ 16"
  proof -
    fix c :: char
    have "(of_char c :: nat) mod 256 < 256" by (rule mod_less_divisor) simp
    then have "(of_char c :: nat) < 256" by (simp only: of_char_mod_256)
    then show "(of_char c :: nat) < 2 ^ 16" by (rule less_trans) simp
  qed
  from eq have "unat (word_of_nat (of_char a) :: 16 word) = unat (word_of_nat (of_char b) :: 16 word)"
    by simp
  then have "(of_char a :: nat) = of_char b"
    using bound [of a] bound [of b] by (simp add: unat_of_nat)
  then show "a = b" by simp
qed

lemma js_eq_iff: "js a = js b \<longleftrightarrow> a = b"
  unfolding js_def by (rule inj_map_eq_map [OF code_unit_inj])

lemma js_Nil_iff: "js a = [] \<longleftrightarrow> a = []"
  by (simp add: js_def)

lemma js_append: "js a @ js b = js (a @ b)"
  by (simp add: js_def)

lemma sanitizeUserInput_length: "length (sanitizeUserInput s) \<le> 2000"
  unfolding sanitizeUserInput_def
  by (rule le_trans [OF length_filter_le]) simp

lemmas example_defs =
  key_free_env_def no_gemini_env_def paid_env_def offline_world_def huggingface_world_def
  pollinations_world_def openai_world_def gemini_world_def overloaded_world_def

lemma red_cat_sanitized: "sanitizeUserInput (js ''a red cat'') = js ''a red cat''"
  by code_simp

lemma red_cat_encoded: "encodeURIComponent (js ''a red cat'') = Some (js ''a%20red%20cat'')"
  by code_simp

lemma image_jpeg_prefix: "startsWith (js ''image/jpeg'') (js ''image/'')"
  by code_simp

section \<open>The image fallback chain\<close>

lemma placeholder_encoded:
  "encodeURIComponent placeholder_text =
     Some (js ''Image%20generation%20temporarily%20unavailable.%20Trying%20multiple%20free%20services...'')"
  by code_simp

lemma placeholder_url:
  "placeholder_base
   @ js ''Image%20generation%20temporarily%20unavailable.%20Trying%20multiple%20free%20services...''
   = js ''https://via.placeholder.com/1024x1024/3498db/ffffff?text=Image%20generation%20temporarily%20unavailable.%20Trying%20multiple%20free%20services...''"
  by (simp add: placeholder_base_def js_append)

text \<open>Each attempt sends at most one request, to its own provider.\<close>

lemma attempt_huggingface_trace:
  "snd (attempt_huggingface e w p) = [] \<or> snd (attempt_huggingface e w p) = [HuggingFace]"
  by (simp add: attempt_huggingface_def split: option.split sum.split)

lemma attempt_pollinations_trace:
  "snd (attempt_pollinations w p) = [] \<or> snd (attempt_pollinations w p) = [Pollinations]"
  by (simp add: attempt_pollinations_def Let_def split: option.split sum.split)

lemma attempt_openai_trace:
  "snd (attempt_openai e w p) = [] \<or> snd (attempt_openai e w p) = [OpenAI]"
  by (simp add: attempt_openai_def split: option.split sum.split)

text \<open>
  The requests of one call: none unless the key check and the prompt checks pass, then
  those of the attempts up to the first that yields an image.
\<close>

lemma providers_invoked_eq:
  "providers_invoked e w prompt =
     (if truthy (GEMINI_API_KEY e) \<and> sanitizeUserInput prompt \<noteq> [] then
        snd (attempt_huggingface e w (sanitizeUserInput prompt))
        @ (if fst (attempt_huggingface e w (sanitizeUserInput prompt)) \<noteq> None then []
           else snd (attempt_pollinations w (sanitizeUserInput prompt))
                @ (if fst (attempt_pollinations w (sanitizeUserInput prompt)) \<noteq> None then []
                   else snd (attempt_openai e w (sanitizeUserInput prompt))))
      else [])"
  using sanitizeUserInput_length [of prompt]
  by (auto simp add: providers_invoked_def generateGeminiImage_traced_def image_try_def Let_def
      placeholder_encoded split: prod.split option.split)

text \<open>The outer \<open>try\<close> block of the image adapter lets no exception escape.\<close>

lemma image_try_returns: "\<exists>r. fst (image_try e w prompt) = Inr r"
  by (simp add: image_try_def Let_def placeholder_encoded split: prod.split option.split)

lemma generateGeminiImage_exhausted:
  assumes "truthy (GEMINI_API_KEY e)" and "sanitizeUserInput prompt \<noteq> []"
    and "fst (attempt_huggingface e w (sanitizeUserInput prompt)) = None"
    and "fst (attempt_pollinations w (sanitizeUserInput prompt)) = None"
    and "fst (attempt_openai e w (sanitizeUserInput prompt)) = None"
  shows "generateGeminiImage e w prompt =
     \<lparr>gi_imageUrl = js ''https://via.placeholder.com/1024x1024/3498db/ffffff?text=Image%20generation%20temporarily%20unavailable.%20Trying%20multiple%20free%20services...'',
      gi_success = True,
      gi_error = Some (js ''Image generation services temporarily unavailable. We tried Hugging Face and Pollinations.ai free services.'')\<rparr>"
  using assms sanitizeUserInput_length [of prompt]
  by (auto simp add: generateGeminiImage_def generateGeminiImage_traced_def image_try_def Let_def
      placeholder_encoded placeholder_url split: prod.split option.split)

lemma generateGeminiImage_success_iff:
  "gi_success (generateGeminiImage e w prompt)
     \<longleftrightarrow> truthy (GEMINI_API_KEY e) \<and> sanitizeUserInput prompt \<noteq> []"
  using sanitizeUserInput_length [of prompt]
  by (auto simp add: generateGeminiImage_def generateGeminiImage_traced_def image_try_def Let_def
      image_failure_def placeholder_encoded split: prod.split option.split)

text \<open>What each attempt yields, in terms of what its provider answers.\<close>

lemma attempt_huggingface_yields:
  "fst (attempt_huggingface e w sp) = Some url \<longleftrightarrow>
     (\<exists>key response base64.
        HUGGINGFACE_API_KEY e = Some key \<and> key \<noteq> []
        \<and> huggingface_fetch w key sp = Inr response \<and> hf_ok response
        \<and> hf_image_base64 response = Inr base64
        \<and> url = js ''data:image/png;base64,'' @ base64)"
  by (auto simp add: attempt_huggingface_def split: option.splits sum.splits if_splits)

lemma attempt_pollinations_yields:
  "fst (attempt_pollinations w sp) = Some url \<longleftrightarrow>
     (\<exists>encodedPrompt testResponse ct.
        encodeURIComponent sp = Some encodedPrompt
        \<and> url = pollinations_url encodedPrompt (math_random w mod 1000000)
        \<and> pollinations_head w url = Inr testResponse \<and> probe_ok testResponse
        \<and> probe_content_type testResponse = Some ct \<and> startsWith ct (js ''image/''))"
  by (auto simp add: attempt_pollinations_def Let_def split: option.splits sum.splits if_splits)

lemma attempt_openai_yields:
  "fst (attempt_openai e w sp) = Some url \<longleftrightarrow>
     (\<exists>key response.
        OPENAI_API_KEY e = Some key \<and> key \<noteq> []
        \<and> openai_fetch w key sp = Inr response \<and> openai_ok response
        \<and> openai_url response = Inr (Some url) \<and> url \<noteq> [])"
  by (auto simp add: attempt_openai_def truthy_def split: option.splits sum.splits if_splits)

text \<open>The request each attempt sends.\<close>

lemma attempt_huggingface_request:
  "snd (attempt_huggingface e w sp) = (if truthy (HUGGINGFACE_API_KEY e) then [HuggingFace] else [])"
  by (simp add: attempt_huggingface_def truthy_def split: option.split sum.split)

lemma attempt_pollinations_request:
  "snd (attempt_pollinations w sp) = (if encodeURIComponent sp = None then [] else [Pollinations])"
  by (simp add: attempt_pollinations_def Let_def split: option.split sum.split)

lemma attempt_openai_request:
  "snd (attempt_openai e w sp) = (if truthy (OPENAI_API_KEY e) then [OpenAI] else [])"
  by (simp add: attempt_openai_def truthy_def split: option.split sum.split)

text \<open>The result of a call that passes the key check and the prompt checks.\<close>

lemma generateGeminiImage_entered:
  assumes "truthy (GEMINI_API_KEY e)" and "sanitizeUserInput prompt \<noteq> []"
  shows "generateGeminiImage e w prompt =
     (case fst (attempt_huggingface e w (sanitizeUserInput prompt)) of
        Some dataUrl \<Rightarrow> \<lparr>gi_imageUrl = dataUrl, gi_success = True, gi_error = None\<rparr>
      | None \<Rightarrow>
          (case fst (attempt_pollinations w (sanitizeUserInput prompt)) of
             Some imageUrl \<Rightarrow> \<lparr>gi_imageUrl = imageUrl, gi_success = True, gi_error = None\<rparr>
           | None \<Rightarrow>
               (case fst (attempt_openai e w (sanitizeUserInput prompt)) of
                  Some imageUrl \<Rightarrow>
                    \<lparr>gi_imageUrl = imageUrl, gi_success = True,
                     gi_error = Some (js ''Note: This used OpenAI DALL-E (paid). Cost: ~$0.04. Add HUGGINGFACE_API_KEY for free images.'')\<rparr>
                | None \<Rightarrow>
                    \<lparr>gi_imageUrl = js ''https://via.placeholder.com/1024x1024/3498db/ffffff?text=Image%20generation%20temporarily%20unavailable.%20Trying%20multiple%20free%20services...'',
                     gi_success = True,
                     gi_error = Some (js ''Image generation services temporarily unavailable. We tried Hugging Face and Pollinations.ai free services.'')\<rparr>)))"
  using assms sanitizeUserInput_length [of prompt]
  by (auto simp add: generateGeminiImage_def generateGeminiImage_traced_def image_try_def Let_def
      placeholder_encoded placeholder_url split: prod.split option.split)

lemma providers_invoked_exact:
  "providers_invoked e w prompt =
     (if truthy (GEMINI_API_KEY e) \<and> sanitizeUserInput prompt \<noteq> [] then
        (if truthy (HUGGINGFACE_API_KEY e) then [HuggingFace] else [])
        @ (if fst (attempt_huggingface e w (sanitizeUserInput prompt)) \<noteq> None then []
           else (if encodeURIComponent (sanitizeUserInput prompt) = None then [] else [Pollinations])
                @ (if fst (attempt_pollinations w (sanitizeUserInput prompt)) \<noteq> None then []
                   else (if truthy (OPENAI_API_KEY e) then [OpenAI] else [])))
      else [])"
  by (simp only: providers_invoked_eq attempt_huggingface_request attempt_pollinations_request
      attempt_openai_request)


text \<open>
  C1. The chain tries Hugging Face, Pollinations and OpenAI in this fixed order, each at
  most once, and stops at the first image. With \<open>entered\<close> for a call that passes the key
  check and the prompt checks, and \<open>a\<close>, \<open>b\<close>, \<open>c\<close> for what the three attempts yield:
  the requests of a call are a subsequence of the three in priority order; Hugging Face
  is asked exactly when the chain is entered and its key is set, Pollinations exactly
  when Hugging Face yielded nothing (and the prompt can be encoded), OpenAI exactly when
  both yielded nothing and its key is set; an attempt yields an image exactly when its
  provider answers with one, and that image is then what it yields; the result of the
  call is the image of the first attempt that yields one, with \<open>success = true\<close>, and the
  placeholder URL with \<open>success = true\<close> when none does. So an image from Hugging Face
  means no request to Pollinations or OpenAI, an image from Pollinations means no request
  to OpenAI, and Hugging Face and Pollinations failing with no OpenAI key gives the
  placeholder.
\<close>

theorem image_fallback_order:
  "(let sp = sanitizeUserInput prompt;
        entered = (truthy (GEMINI_API_KEY e) \<and> sp \<noteq> []);
        a = fst (attempt_huggingface e w sp);
        b = fst (attempt_pollinations w sp);
        c = fst (attempt_openai e w sp);
        invoked = providers_invoked e w prompt;
        result = generateGeminiImage e w prompt
    in 
      invoked \<in> set (subseqs [HuggingFace, Pollinations, OpenAI])
      \<and> (HuggingFace \<in> set invoked \<longleftrightarrow> entered \<and> truthy (HUGGINGFACE_API_KEY e))
      \<and> (Pollinations \<in> set invoked \<longleftrightarrow> entered \<and> a = None \<and> encodeURIComponent sp \<noteq> None)
      \<and> (OpenAI \<in> set invoked \<longleftrightarrow> entered \<and> a = None \<and> b = None \<and> truthy (OPENAI_API_KEY e))
      \<and> (\<forall>url. a = Some url \<longleftrightarrow>
          (\<exists>key response base64.
             HUGGINGFACE_API_KEY e = Some key \<and> key \<noteq> []
             \<and> huggingface_fetch w key sp = Inr response \<and> hf_ok response
             \<and> hf_image_base64 response = Inr base64
             \<and> url = js ''data:image/png;base64,'' @ base64))
      \<and> (\<forall>url. b = Some url \<longleftrightarrow>
          (\<exists>encodedPrompt testResponse ct.
             encodeURIComponent sp = Some encodedPrompt
             \<and> url = pollinations_url encodedPrompt (math_random w mod 1000000)
             \<and> pollinations_head w url = Inr testResponse \<and> probe_ok testResponse
             \<and> probe_content_type testResponse = Some ct \<and> startsWith ct (js ''image/'')))
      \<and> (\<forall>url. c = Some url \<longleftrightarrow>
          (\<exists>key response.
             OPENAI_API_KEY e = Some key \<and> key \<noteq> []
             \<and> openai_fetch w key sp = Inr response \<and> openai_ok response
             \<and> openai_url response = Inr (Some url) \<and> url \<noteq> []))
      \<and> (\<forall>url. entered \<and> a = Some url
          \<longrightarrow> result = \<lparr>gi_imageUrl = url, gi_success = True, gi_error = None\<rparr>)
      \<and> (\<forall>url. entered \<and> a = None \<and> b = Some url
          \<longrightarrow> result = \<lparr>gi_imageUrl = url, gi_success = True, gi_error = None\<rparr>)
      \<and> (\<forall>url. entered \<and> a = None \<and> b = None \<and> c = Some url
          \<longrightarrow> result = \<lparr>gi_imageUrl = url, gi_success = True,
                         gi_error = Some (js ''Note: This used OpenAI DALL-E (paid). Cost: ~$0.04. Add HUGGINGFACE_API_KEY for free images.'')\<rparr>)
      \<and> (entered \<and> a = None \<and> b = None \<and> c = None
          \<longrightarrow> result = \<lparr>gi_imageUrl = js ''https://via.placeholder.com/1024x1024/3498db/ffffff?text=Image%20generation%20temporarily%20unavailable.%20Trying%20multiple%20free%20services...'',
                         gi_success = True,
                         gi_error = Some (js ''Image generation services temporarily unavailable. We tried Hugging Face and Pollinations.ai free services.'')\<rparr>)
      \<and> (a \<noteq> None \<longrightarrow> Pollinations \<notin> set invoked \<and> OpenAI \<notin> set invoked)
      \<and> (a = None \<and> b \<noteq> None \<longrightarrow> OpenAI \<notin> set invoked)
      \<and> (entered \<and> a = None \<and> b = None \<and> \<not> truthy (OPENAI_API_KEY e)
          \<longrightarrow> gi_imageUrl result = js ''https://via.placeholder.com/1024x1024/3498db/ffffff?text=Image%20generation%20temporarily%20unavailable.%20Trying%20multiple%20free%20services...''
              \<and> gi_success result)
      \<and> (HuggingFace \<in> set invoked \<and> a = None \<and> Pollinations \<in> set invoked \<and> b = None
        \<and> \<not> truthy (OPENAI_API_KEY e)
          \<longrightarrow> gi_imageUrl result = js ''https://via.placeholder.com/1024x1024/3498db/ffffff?text=Image%20generation%20temporarily%20unavailable.%20Trying%20multiple%20free%20services...''
              \<and> gi_success result))"
proof -
  let ?sp = "sanitizeUserInput prompt"
  let ?entered = "truthy (GEMINI_API_KEY e) \<and> ?sp \<noteq> []"
  let ?a = "fst (attempt_huggingface e w ?sp)"
  let ?b = "fst (attempt_pollinations w ?sp)"
  let ?c = "fst (attempt_openai e w ?sp)"
  let ?invoked = "providers_invoked e w prompt"
  let ?result = "generateGeminiImage e w prompt"
  have order: "?invoked \<in> set (subseqs [HuggingFace, Pollinations, OpenAI])"
    using attempt_huggingface_trace [of e w ?sp] attempt_pollinations_trace [of w ?sp]
      attempt_openai_trace [of e w ?sp]
    by (auto simp add: providers_invoked_eq)
  have hf_tried: "(HuggingFace \<in> set ?invoked \<longleftrightarrow> ?entered \<and> truthy (HUGGINGFACE_API_KEY e))"
    by (auto simp add: providers_invoked_exact)
  have poll_tried: "(Pollinations \<in> set ?invoked \<longleftrightarrow> ?entered \<and> ?a = None \<and> encodeURIComponent ?sp \<noteq> None)"
    by (auto simp add: providers_invoked_exact)
  have openai_tried: "(OpenAI \<in> set ?invoked \<longleftrightarrow> ?entered \<and> ?a = None \<and> ?b = None \<and> truthy (OPENAI_API_KEY e))"
    by (auto simp add: providers_invoked_exact)
  have hf_yields: "(\<forall>url. ?a = Some url \<longleftrightarrow>
          (\<exists>key response base64.
             HUGGINGFACE_API_KEY e = Some key \<and> key \<noteq> []
             \<and> huggingface_fetch w key ?sp = Inr response \<and> hf_ok response
             \<and> hf_image_base64 response = Inr base64
             \<and> url = js ''data:image/png;base64,'' @ base64))"
    by (intro allI) (rule attempt_huggingface_yields)
  have poll_yields: "(\<forall>url. ?b = Some url \<longleftrightarrow>
          (\<exists>encodedPrompt testResponse ct.
             encodeURIComponent ?sp = Some encodedPrompt
             \<and> url = pollinations_url encodedPrompt (math_random w mod 1000000)
             \<and> pollinations_head w url = Inr testResponse \<and> probe_ok testResponse
             \<and> probe_content_type testResponse = Some ct \<and> startsWith ct (js ''image/'')))"
    by (intro allI) (rule attempt_pollinations_yields)
  have openai_yields: "(\<forall>url. ?c = Some url \<longleftrightarrow>
          (\<exists>key response.
             OPENAI_API_KEY e = Some key \<and> key \<noteq> []
             \<and> openai_fetch w key ?sp = Inr response \<and> openai_ok response
             \<and> openai_url response = Inr (Some url) \<and> url \<noteq> []))"
    by (intro allI) (rule attempt_openai_yields)
  have hf_returned: "(\<forall>url. ?entered \<and> ?a = Some url
          \<longrightarrow> ?result = \<lparr>gi_imageUrl = url, gi_success = True, gi_error = None\<rparr>)"
    by (auto simp add: generateGeminiImage_entered)
  have poll_returned: "(\<forall>url. ?entered \<and> ?a = None \<and> ?b = Some url
          \<longrightarrow> ?result = \<lparr>gi_imageUrl = url, gi_success = True, gi_error = None\<rparr>)"
    by (auto simp add: generateGeminiImage_entered)
  have openai_returned: "(\<forall>url. ?entered \<and> ?a = None \<and> ?b = None \<and> ?c = Some url
          \<longrightarrow> ?result = \<lparr>gi_imageUrl = url, gi_success = True,
                         gi_error = Some (js ''Note: This used OpenAI DALL-E (paid). Cost: ~$0.04. Add HUGGINGFACE_API_KEY for free images.'')\<rparr>)"
    by (auto simp add: generateGeminiImage_entered)
  have exhausted: "(?entered \<and> ?a = None \<and> ?b = None \<and> ?c = None
          \<longrightarrow> ?result = \<lparr>gi_imageUrl = js ''https://via.placeholder.com/1024x1024/3498db/ffffff?text=Image%20generation%20temporarily%20unavailable.%20Trying%20multiple%20free%20services...'',
                         gi_success = True,
                         gi_error = Some (js ''Image generation services temporarily unavailable. We tried Hugging Face and Pollinations.ai free services.'')\<rparr>)"
    by (auto simp add: generateGeminiImage_entered)
  have stop_a: "(?a \<noteq> None \<longrightarrow> Pollinations \<notin> set ?invoked \<and> OpenAI \<notin> set ?invoked)"
    by (auto simp add: providers_invoked_exact)
  have stop_b: "(?a = None \<and> ?b \<noteq> None \<longrightarrow> OpenAI \<notin> set ?invoked)"
    by (auto simp add: providers_invoked_exact)
  have no_key: "\<not> truthy (OPENAI_API_KEY e) \<Longrightarrow> ?c = None"
    by (auto simp add: attempt_openai_def truthy_def split: option.splits)
  have unconfigured: "(?entered \<and> ?a = None \<and> ?b = None \<and> \<not> truthy (OPENAI_API_KEY e)
          \<longrightarrow> gi_imageUrl ?result = js ''https://via.placeholder.com/1024x1024/3498db/ffffff?text=Image%20generation%20temporarily%20unavailable.%20Trying%20multiple%20free%20services...''
              \<and> gi_success ?result)"
    using exhausted no_key by auto
  have asked: "(HuggingFace \<in> set ?invoked \<and> ?a = None \<and> Pollinations \<in> set ?invoked \<and> ?b = None
        \<and> \<not> truthy (OPENAI_API_KEY e)
          \<longrightarrow> gi_imageUrl ?result = js ''https://via.placeholder.com/1024x1024/3498db/ffffff?text=Image%20generation%20temporarily%20unavailable.%20Trying%20multiple%20free%20services...''
              \<and> gi_success ?result)"
    using unconfigured hf_tried by blast
  show ?thesis
    unfolding Let_def
    by (intro conjI; fact)
qed


lemma red_cat_url:
  "pollinations_url (js ''a%20red%20cat'') 424242 = js ''https://image.pollinations.ai/prompt/a%20red%20cat?width=512&height=512&seed=424242&model=flux&nologo=true''"
  by (simp add: pollinations_url_def hexDigit_def js_def)

lemma subseqs_three:
  "xs \<in> set (subseqs [HuggingFace, Pollinations, OpenAI]) \<Longrightarrow>
     xs = filter (\<lambda>p. p \<in> set xs) [HuggingFace, Pollinations, OpenAI]"
  by auto


text \<open>
  The prompt \<open>a red cat\<close> in four worlds: Hugging Face answering; only Pollinations
  answering; only OpenAI answering, with its key set; and nothing answering, with no
  OpenAI key.
\<close>

theorem image_fallback_order_witness:
  "((truthy (GEMINI_API_KEY key_free_env) \<and> sanitizeUserInput (js ''a red cat'') \<noteq> []) \<and> truthy (HUGGINGFACE_API_KEY key_free_env)
    \<and> fst (attempt_huggingface key_free_env huggingface_world (sanitizeUserInput (js ''a red cat''))) = Some (js ''data:image/png;base64,iVBORw0KGgo='')
    \<and> generateGeminiImage key_free_env huggingface_world (js ''a red cat'') = \<lparr>gi_imageUrl = js ''data:image/png;base64,iVBORw0KGgo='', gi_success = True, gi_error = None\<rparr>
    \<and> HuggingFace \<in> set (providers_invoked key_free_env huggingface_world (js ''a red cat'')) \<and> Pollinations \<notin> set (providers_invoked key_free_env huggingface_world (js ''a red cat'')) \<and> OpenAI \<notin> set (providers_invoked key_free_env huggingface_world (js ''a red cat'')))
   \<and> ((truthy (GEMINI_API_KEY key_free_env) \<and> sanitizeUserInput (js ''a red cat'') \<noteq> []) \<and> truthy (HUGGINGFACE_API_KEY key_free_env) \<and> fst (attempt_huggingface key_free_env pollinations_world (sanitizeUserInput (js ''a red cat''))) = None
    \<and> encodeURIComponent (sanitizeUserInput (js ''a red cat'')) \<noteq> None
    \<and> fst (attempt_pollinations pollinations_world (sanitizeUserInput (js ''a red cat''))) = Some (js ''https://image.pollinations.ai/prompt/a%20red%20cat?width=512&height=512&seed=424242&model=flux&nologo=true'')
    \<and> generateGeminiImage key_free_env pollinations_world (js ''a red cat'') = \<lparr>gi_imageUrl = js ''https://image.pollinations.ai/prompt/a%20red%20cat?width=512&height=512&seed=424242&model=flux&nologo=true'', gi_success = True, gi_error = None\<rparr>
    \<and> HuggingFace \<in> set (providers_invoked key_free_env pollinations_world (js ''a red cat'')) \<and> Pollinations \<in> set (providers_invoked key_free_env pollinations_world (js ''a red cat'')) \<and> OpenAI \<notin> set (providers_invoked key_free_env pollinations_world (js ''a red cat'')))
   \<and> ((truthy (GEMINI_API_KEY paid_env) \<and> sanitizeUserInput (js ''a red cat'') \<noteq> []) \<and> truthy (HUGGINGFACE_API_KEY paid_env) \<and> truthy (OPENAI_API_KEY paid_env)
    \<and> fst (attempt_huggingface paid_env openai_world (sanitizeUserInput (js ''a red cat''))) = None \<and> encodeURIComponent (sanitizeUserInput (js ''a red cat'')) \<noteq> None \<and> fst (attempt_pollinations openai_world (sanitizeUserInput (js ''a red cat''))) = None
    \<and> fst (attempt_openai paid_env openai_world (sanitizeUserInput (js ''a red cat''))) = Some (js ''https://images.example/cat.png'')
    \<and> generateGeminiImage paid_env openai_world (js ''a red cat'') = \<lparr>gi_imageUrl = js ''https://images.example/cat.png'', gi_success = True,
         gi_error = Some (js ''Note: This used OpenAI DALL-E (paid). Cost: ~$0.04. Add HUGGINGFACE_API_KEY for free images.'')\<rparr>
    \<and> providers_invoked paid_env openai_world (js ''a red cat'') = [HuggingFace, Pollinations, OpenAI])
   \<and> ((truthy (GEMINI_API_KEY key_free_env) \<and> sanitizeUserInput (js ''a red cat'') \<noteq> []) \<and> truthy (HUGGINGFACE_API_KEY key_free_env) \<and> \<not> truthy (OPENAI_API_KEY key_free_env)
    \<and> fst (attempt_huggingface key_free_env offline_world (sanitizeUserInput (js ''a red cat''))) = None \<and> encodeURIComponent (sanitizeUserInput (js ''a red cat'')) \<noteq> None \<and> fst (attempt_pollinations offline_world (sanitizeUserInput (js ''a red cat''))) = None
    \<and> gi_imageUrl (generateGeminiImage key_free_env offline_world (js ''a red cat'')) = js ''https://via.placeholder.com/1024x1024/3498db/ffffff?text=Image%20generation%20temporarily%20unavailable.%20Trying%20multiple%20free%20services...''
    \<and> gi_success (generateGeminiImage key_free_env offline_world (js ''a red cat''))
    \<and> providers_invoked key_free_env offline_world (js ''a red cat'') = [HuggingFace, Pollinations])"
proof -
  have h1: "(truthy (GEMINI_API_KEY key_free_env) \<and> sanitizeUserInput (js ''a red cat'') \<noteq> []) \<and> truthy (HUGGINGFACE_API_KEY key_free_env)
    \<and> fst (attempt_huggingface key_free_env huggingface_world (sanitizeUserInput (js ''a red cat''))) = Some (js ''data:image/png;base64,iVBORw0KGgo='')"
    by (simp add: attempt_huggingface_def example_defs truthy_def js_Nil_iff js_append
        red_cat_sanitized)
  have h2: "(truthy (GEMINI_API_KEY key_free_env) \<and> sanitizeUserInput (js ''a red cat'') \<noteq> []) \<and> truthy (HUGGINGFACE_API_KEY key_free_env) \<and> fst (attempt_huggingface key_free_env pollinations_world (sanitizeUserInput (js ''a red cat''))) = None
    \<and> encodeURIComponent (sanitizeUserInput (js ''a red cat'')) \<noteq> None
    \<and> fst (attempt_pollinations pollinations_world (sanitizeUserInput (js ''a red cat''))) = Some (js ''https://image.pollinations.ai/prompt/a%20red%20cat?width=512&height=512&seed=424242&model=flux&nologo=true'')"
    by (simp add: attempt_huggingface_def attempt_pollinations_def example_defs truthy_def
        js_Nil_iff red_cat_sanitized red_cat_encoded red_cat_url image_jpeg_prefix)
  have h3: "(truthy (GEMINI_API_KEY paid_env) \<and> sanitizeUserInput (js ''a red cat'') \<noteq> []) \<and> truthy (HUGGINGFACE_API_KEY paid_env) \<and> truthy (OPENAI_API_KEY paid_env)
    \<and> fst (attempt_huggingface paid_env openai_world (sanitizeUserInput (js ''a red cat''))) = None \<and> encodeURIComponent (sanitizeUserInput (js ''a red cat'')) \<noteq> None \<and> fst (attempt_pollinations openai_world (sanitizeUserInput (js ''a red cat''))) = None
    \<and> fst (attempt_openai paid_env openai_world (sanitizeUserInput (js ''a red cat''))) = Some (js ''https://images.example/cat.png'')"
    by (simp add: attempt_huggingface_def attempt_pollinations_def attempt_openai_def
        example_defs truthy_def js_Nil_iff red_cat_sanitized red_cat_encoded)
  have h4: "(truthy (GEMINI_API_KEY key_free_env) \<and> sanitizeUserInput (js ''a red cat'') \<noteq> []) \<and> truthy (HUGGINGFACE_API_KEY key_free_env) \<and> \<not> truthy (OPENAI_API_KEY key_free_env)
    \<and> fst (attempt_huggingface key_free_env offline_world (sanitizeUserInput (js ''a red cat''))) = None \<and> encodeURIComponent (sanitizeUserInput (js ''a red cat'')) \<noteq> None \<and> fst (attempt_pollinations offline_world (sanitizeUserInput (js ''a red cat''))) = None"
    by (simp add: attempt_huggingface_def attempt_pollinations_def example_defs truthy_def
        js_Nil_iff red_cat_sanitized red_cat_encoded)
  note t1 = image_fallback_order [where e = key_free_env and w = huggingface_world
      and prompt = "js ''a red cat''", unfolded Let_def]
  from t1 have hf_returned1: "\<forall>url. (truthy (GEMINI_API_KEY key_free_env) \<and> sanitizeUserInput (js ''a red cat'') \<noteq> []) \<and> fst (attempt_huggingface key_free_env huggingface_world (sanitizeUserInput (js ''a red cat''))) = Some url \<longrightarrow> generateGeminiImage key_free_env huggingface_world (js ''a red cat'') = \<lparr>gi_imageUrl = url, gi_success = True, gi_error = None\<rparr>"
    by (elim conjE) assumption
  from t1 have hf_tried1: "(HuggingFace \<in> set (providers_invoked key_free_env huggingface_world (js ''a red cat''))) = ((truthy (GEMINI_API_KEY key_free_env) \<and> sanitizeUserInput (js ''a red cat'') \<noteq> []) \<and> truthy (HUGGINGFACE_API_KEY key_free_env))"
    by (elim conjE) assumption
  from t1 have stop_a1: "fst (attempt_huggingface key_free_env huggingface_world (sanitizeUserInput (js ''a red cat''))) \<noteq> None \<longrightarrow> Pollinations \<notin> set (providers_invoked key_free_env huggingface_world (js ''a red cat'')) \<and> OpenAI \<notin> set (providers_invoked key_free_env huggingface_world (js ''a red cat''))"
    by (elim conjE) assumption
  have c1: "generateGeminiImage key_free_env huggingface_world (js ''a red cat'') = \<lparr>gi_imageUrl = js ''data:image/png;base64,iVBORw0KGgo='', gi_success = True, gi_error = None\<rparr>
    \<and> HuggingFace \<in> set (providers_invoked key_free_env huggingface_world (js ''a red cat'')) \<and> Pollinations \<notin> set (providers_invoked key_free_env huggingface_world (js ''a red cat'')) \<and> OpenAI \<notin> set (providers_invoked key_free_env huggingface_world (js ''a red cat''))"
    using h1 hf_returned1 hf_tried1 stop_a1 by simp
  note t2 = image_fallback_order [where e = key_free_env and w = pollinations_world
      and prompt = "js ''a red cat''", unfolded Let_def]
  from t2 have poll_returned2: "\<forall>url. (truthy (GEMINI_API_KEY key_free_env) \<and> sanitizeUserInput (js ''a red cat'') \<noteq> []) \<and> fst (attempt_huggingface key_free_env pollinations_world (sanitizeUserInput (js ''a red cat''))) = None \<and> fst (attempt_pollinations pollinations_world (sanitizeUserInput (js ''a red cat''))) = Some url \<longrightarrow> generateGeminiImage key_free_env pollinations_world (js ''a red cat'') = \<lparr>gi_imageUrl = url, gi_success = True, gi_error = None\<rparr>"
    by (elim conjE) assumption
  from t2 have hf_tried2: "(HuggingFace \<in> set (providers_invoked key_free_env pollinations_world (js ''a red cat''))) = ((truthy (GEMINI_API_KEY key_free_env) \<and> sanitizeUserInput (js ''a red cat'') \<noteq> []) \<and> truthy (HUGGINGFACE_API_KEY key_free_env))"
    by (elim conjE) assumption
  from t2 have poll_tried2: "(Pollinations \<in> set (providers_invoked key_free_env pollinations_world (js ''a red cat''))) = ((truthy (GEMINI_API_KEY key_free_env) \<and> sanitizeUserInput (js ''a red cat'') \<noteq> []) \<and> fst (attempt_huggingface key_free_env pollinations_world (sanitizeUserInput (js ''a red cat''))) = None \<and> encodeURIComponent (sanitizeUserInput (js ''a red cat'')) \<noteq> None)"
    by (elim conjE) assumption
  from t2 have stop_b2: "fst (attempt_huggingface key_free_env pollinations_world (sanitizeUserInput (js ''a red cat''))) = None \<and> fst (attempt_pollinations pollinations_world (sanitizeUserInput (js ''a red cat''))) \<noteq> None \<longrightarrow> OpenAI \<notin> set (providers_invoked key_free_env pollinations_world (js ''a red cat''))"
    by (elim conjE) assumption
  have c2: "generateGeminiImage key_free_env pollinations_world (js ''a red cat'') = \<lparr>gi_imageUrl = js ''https://image.pollinations.ai/prompt/a%20red%20cat?width=512&height=512&seed=424242&model=flux&nologo=true'', gi_success = True, gi_error = None\<rparr>
    \<and> HuggingFace \<in> set (providers_invoked key_free_env pollinations_world (js ''a red cat'')) \<and> Pollinations \<in> set (providers_invoked key_free_env pollinations_world (js ''a red cat'')) \<and> OpenAI \<notin> set (providers_invoked key_free_env pollinations_world (js ''a red cat''))"
    using h2 poll_returned2 hf_tried2 poll_tried2 stop_b2 by simp
  note t3 = image_fallback_order [where e = paid_env and w = openai_world
      and prompt = "js ''a red cat''", unfolded Let_def]
  from t3 have openai_returned3: "\<forall>url. (truthy (GEMINI_API_KEY paid_env) \<and> sanitizeUserInput (js ''a red cat'') \<noteq> []) \<and> fst (attempt_huggingface paid_env openai_world (sanitizeUserInput (js ''a red cat''))) = None \<and> fst (attempt_pollinations openai_world (sanitizeUserInput (js ''a red cat''))) = None \<and> fst (attempt_openai paid_env openai_world (sanitizeUserInput (js ''a red cat''))) = Some url \<longrightarrow> generateGeminiImage paid_env openai_world (js ''a red cat'') = \<lparr>gi_imageUrl = url, gi_success = True, gi_error = Some (js ''Note: This used OpenAI DALL-E (paid). Cost: ~$0.04. Add HUGGINGFACE_API_KEY for free images.'')\<rparr>"
    by (elim conjE) assumption
  from t3 have hf_tried3: "(HuggingFace \<in> set (providers_invoked paid_env openai_world (js ''a red cat''))) = ((truthy (GEMINI_API_KEY paid_env) \<and> sanitizeUserInput (js ''a red cat'') \<noteq> []) \<and> truthy (HUGGINGFACE_API_KEY paid_env))"
    by (elim conjE) assumption
  from t3 have poll_tried3: "(Pollinations \<in> set (providers_invoked paid_env openai_world (js ''a red cat''))) = ((truthy (GEMINI_API_KEY paid_env) \<and> sanitizeUserInput (js ''a red cat'') \<noteq> []) \<and> fst (attempt_huggingface paid_env openai_world (sanitizeUserInput (js ''a red cat''))) = None \<and> encodeURIComponent (sanitizeUserInput (js ''a red cat'')) \<noteq> None)"
    by (elim conjE) assumption
  from t3 have openai_tried3: "(OpenAI \<in> set (providers_invoked paid_env openai_world (js ''a red cat''))) = ((truthy (GEMINI_API_KEY paid_env) \<and> sanitizeUserInput (js ''a red cat'') \<noteq> []) \<and> fst (attempt_huggingface paid_env openai_world (sanitizeUserInput (js ''a red cat''))) = None \<and> fst (attempt_pollinations openai_world (sanitizeUserInput (js ''a red cat''))) = None \<and> truthy (OPENAI_API_KEY paid_env))"
    by (elim conjE) assumption
  from t3 have order3: "providers_invoked paid_env openai_world (js ''a red cat'') \<in> set (subseqs [HuggingFace, Pollinations, OpenAI])"
    by (elim conjE) assumption
  have m3: "HuggingFace \<in> set (providers_invoked paid_env openai_world (js ''a red cat'')) \<and> Pollinations \<in> set (providers_invoked paid_env openai_world (js ''a red cat'')) \<and> OpenAI \<in> set (providers_invoked paid_env openai_world (js ''a red cat''))"
    using h3 hf_tried3 poll_tried3 openai_tried3 by simp
  have c3: "generateGeminiImage paid_env openai_world (js ''a red cat'') = \<lparr>gi_imageUrl = js ''https://images.example/cat.png'', gi_success = True,
         gi_error = Some (js ''Note: This used OpenAI DALL-E (paid). Cost: ~$0.04. Add HUGGINGFACE_API_KEY for free images.'')\<rparr>
    \<and> providers_invoked paid_env openai_world (js ''a red cat'') = [HuggingFace, Pollinations, OpenAI]"
    using h3 m3 openai_returned3 subseqs_three [OF order3] by simp
  note t4 = image_fallback_order [where e = key_free_env and w = offline_world
      and prompt = "js ''a red cat''", unfolded Let_def]
  from t4 have unconfigured4: "(truthy (GEMINI_API_KEY key_free_env) \<and> sanitizeUserInput (js ''a red cat'') \<noteq> []) \<and> fst (attempt_huggingface key_free_env offline_world (sanitizeUserInput (js ''a red cat''))) = None \<and> fst (attempt_pollinations offline_world (sanitizeUserInput (js ''a red cat''))) = None \<and> \<not> truthy (OPENAI_API_KEY key_free_env) \<longrightarrow> gi_imageUrl (generateGeminiImage key_free_env offline_world (js ''a red cat'')) = js ''https://via.placeholder.com/1024x1024/3498db/ffffff?text=Image%20generation%20temporarily%20unavailable.%20Trying%20multiple%20free%20services...'' \<and> gi_success (generateGeminiImage key_free_env offline_world (js ''a red cat''))"
    by (elim conjE) assumption
  from t4 have hf_tried4: "(HuggingFace \<in> set (providers_invoked key_free_env offline_world (js ''a red cat''))) = ((truthy (GEMINI_API_KEY key_free_env) \<and> sanitizeUserInput (js ''a red cat'') \<noteq> []) \<and> truthy (HUGGINGFACE_API_KEY key_free_env))"
    by (elim conjE) assumption
  from t4 have poll_tried4: "(Pollinations \<in> set (providers_invoked key_free_env offline_world (js ''a red cat''))) = ((truthy (GEMINI_API_KEY key_free_env) \<and> sanitizeUserInput (js ''a red cat'') \<noteq> []) \<and> fst (attempt_huggingface key_free_env offline_world (sanitizeUserInput (js ''a red cat''))) = None \<and> encodeURIComponent (sanitizeUserInput (js ''a red cat'')) \<noteq> None)"
    by (elim conjE) assumption
  from t4 have openai_tried4: "(OpenAI \<in> set (providers_invoked key_free_env offline_world (js ''a red cat''))) = ((truthy (GEMINI_API_KEY key_free_env) \<and> sanitizeUserInput (js ''a red cat'') \<noteq> []) \<and> fst (attempt_huggingface key_free_env offline_world (sanitizeUserInput (js ''a red cat''))) = None \<and> fst (attempt_pollinations offline_world (sanitizeUserInput (js ''a red cat''))) = None \<and> truthy (OPENAI_API_KEY key_free_env))"
    by (elim conjE) assumption
  from t4 have order4: "providers_invoked key_free_env offline_world (js ''a red cat'') \<in> set (subseqs [HuggingFace, Pollinations, OpenAI])"
    by (elim conjE) assumption
  have m4: "HuggingFace \<in> set (providers_invoked key_free_env offline_world (js ''a red cat'')) \<and> Pollinations \<in> set (providers_invoked key_free_env offline_world (js ''a red cat'')) \<and> OpenAI \<notin> set (providers_invoked key_free_env offline_world (js ''a red cat''))"
    using h4 hf_tried4 poll_tried4 openai_tried4 by simp
  have c4: "gi_imageUrl (generateGeminiImage key_free_env offline_world (js ''a red cat'')) = js ''https://via.placeholder.com/1024x1024/3498db/ffffff?text=Image%20generation%20temporarily%20unavailable.%20Trying%20multiple%20free%20services...''
    \<and> gi_success (generateGeminiImage key_free_env offline_world (js ''a red cat''))
    \<and> providers_invoked key_free_env offline_world (js ''a red cat'') = [HuggingFace, Pollinations]"
    using h4 m4 unconfigured4 subseqs_three [OF order4] by simp
  show ?thesis
    using h1 h2 h3 h4 c1 c2 c3 c4 by (intro conjI) simp_all
qed

section \<open>The message store and the procedures\<close>

text \<open>What the three store operations do while the store is available.\<close>

lemma store_available_Suc:
  "store_available (Suc n) d \<Longrightarrow> \<exists>d'. supabase_request d = (None, d') \<and> rows d' = rows d
     \<and> next_id d' = next_id d \<and> clock d' = clock d \<and> store_available n d'"
  by (cases "faults d") (auto simp add: store_available_def supabase_request_def)

lemma addMessage_available:
  assumes "store_available (Suc n) d"
  shows "\<exists>d'. addMessage m d = (Inr (new_row m d), d') \<and> rows d' = rows d @ [new_row m d]
           \<and> next_id d' = Suc (next_id d) \<and> clock d' = Suc (clock d) \<and> store_available n d'"
proof -
  from store_available_Suc [OF assms] obtain d0 where
    "supabase_request d = (None, d0)" "rows d0 = rows d" "next_id d0 = next_id d"
    "clock d0 = clock d" "store_available n d0" by blast
  then show ?thesis
    by (simp add: addMessage_def Let_def new_row_def store_available_def)
qed

lemma clearUserHistory_available:
  assumes "store_available (Suc n) d"
  shows "\<exists>d'. clearUserHistory u d = (Inr (), d')
           \<and> rows d' = filter (\<lambda>m. user_id m \<noteq> u) (rows d) \<and> store_available n d'"
proof -
  from store_available_Suc [OF assms] obtain d0 where
    "supabase_request d = (None, d0)" "rows d0 = rows d" "store_available n d0" by blast
  then show ?thesis
    by (simp add: clearUserHistory_def store_available_def)
qed

lemma getMessagesForUser_available:
  assumes "store_available (Suc n) d"
  shows "\<exists>d'. getMessagesForUser u d
             = (Inr (sort_key created_at (filter (\<lambda>m. user_id m = u) (rows d))), d')
           \<and> rows d' = rows d \<and> store_available n d'"
proof -
  from store_available_Suc [OF assms] obtain d0 where
    "supabase_request d = (None, d0)" "rows d0 = rows d" "store_available n d0" by blast
  then show ?thesis
    by (simp add: getMessagesForUser_def)
qed

text \<open>
  Reading a history back: two rows stamped with the current clock and the next tick come
  last, in that order, when the counters are ahead of the stored rows.
\<close>

lemma insort_key_last:
  "f x \<le> f a \<Longrightarrow> insort_key f x (xs @ [a]) = insort_key f x xs @ [a]"
  by (induction xs) auto

lemma sort_key_snoc:
  "\<forall>x \<in> set xs. f x \<le> f a \<Longrightarrow> sort_key f (xs @ [a]) = sort_key f xs @ [a]"
  by (induction xs) (auto simp add: insort_key_last)

lemma history_after_pair:
  assumes "store_consistent d"
    and "created_at u = clock d" and "created_at m = Suc (clock d)"
    and "user_id u = userId" and "user_id m = userId"
  shows "sort_key created_at (filter (\<lambda>r. user_id r = userId) (rows d @ [u, m]))
           = sort_key created_at (filter (\<lambda>r. user_id r = userId) (rows d)) @ [u, m]"
proof -
  let ?old = "filter (\<lambda>r. user_id r = userId) (rows d)"
  from assms(1) have past: "\<forall>r \<in> set ?old. created_at r < clock d"
    by (auto simp add: store_consistent_def list_all_iff)
  have 1: "sort_key created_at (?old @ [u]) = sort_key created_at ?old @ [u]"
    using past assms(2) by (intro sort_key_snoc) auto
  have 2: "sort_key created_at ((?old @ [u]) @ [m]) = sort_key created_at (?old @ [u]) @ [m]"
    using past assms(2,3) by (intro sort_key_snoc) auto
  show ?thesis
    using 1 2 assms(4,5) by simp
qed

text \<open>The three store operations keep the counters ahead of the rows.\<close>

lemma supabase_request_rows:
  "rows (snd (supabase_request d)) = rows d \<and> next_id (snd (supabase_request d)) = next_id d
   \<and> clock (snd (supabase_request d)) = clock d"
  by (simp add: supabase_request_def split: list.split)

lemma store_consistent_kept:
  assumes "store_consistent d"
  shows "store_consistent (snd (addMessage m d))"
    and "store_consistent (snd (clearUserHistory u d))"
    and "store_consistent (snd (getMessagesForUser u d))"
proof -
  obtain f d0 where r: "supabase_request d = (f, d0)" by (cases "supabase_request d")
  with supabase_request_rows [of d] have same: "rows d0 = rows d" "next_id d0 = next_id d"
    "clock d0 = clock d" by simp_all
  with assms have c0: "store_consistent d0" by (simp add: store_consistent_def)
  show "store_consistent (snd (addMessage m d))"
    using c0 r
    by (cases f) (auto simp add: addMessage_def Let_def new_row_def store_consistent_def
        list_all_iff less_Suc_eq)
  show "store_consistent (snd (clearUserHistory u d))"
    using c0 r
    by (cases f) (auto simp add: clearUserHistory_def store_consistent_def list_all_iff)
  show "store_consistent (snd (getMessagesForUser u d))"
    using c0 r by (cases f) (auto simp add: getMessagesForUser_def)
qed

lemma procedure_call_public:
  "procedure_call t_procedure issues resolver ctx input d =
     (case issues input of [] \<Rightarrow> resolver ctx input d
      | i # is \<Rightarrow> (Inl \<lparr>code = BAD_REQUEST, message = ZodIssues (i # is)\<rparr>, d))"
  by (simp add: procedure_call_def t_procedure_def)

text \<open>
  With the store available, sendMessage stores the user row and then the model row,
  whatever the text adapter answers.
\<close>

lemma sendMessage_pair:
  assumes valid: "sendMessage_issues input = []"
    and store: "store_available 2 d"
  shows "fst (sendMessage e w ctx input d) =
           Inr \<lparr>sm_success = True,
                sm_userMessage = new_row (text_row (s_userId input) role_user (sanitizeUserInput (s_message input))) d,
                sm_aiMessage = (new_row (text_row (s_userId input) role_model
                     (gr_response (generateGeminiResponse e w (sanitizeUserInput (s_message input))))) d)
                     \<lparr>msg_id := Suc (next_id d), created_at := Suc (clock d)\<rparr>,
                sm_aiResponse = gr_response (generateGeminiResponse e w (sanitizeUserInput (s_message input))),
                sm_geminiSuccess = gr_success (generateGeminiResponse e w (sanitizeUserInput (s_message input))),
                sm_geminiError = gr_error (generateGeminiResponse e w (sanitizeUserInput (s_message input)))\<rparr>"
    and "rows (snd (sendMessage e w ctx input d)) =
           rows d @ [new_row (text_row (s_userId input) role_user (sanitizeUserInput (s_message input))) d,
                     (new_row (text_row (s_userId input) role_model
                        (gr_response (generateGeminiResponse e w (sanitizeUserInput (s_message input))))) d)
                     \<lparr>msg_id := Suc (next_id d), created_at := Suc (clock d)\<rparr>]"
proof -
  let ?u = "text_row (s_userId input) role_user (sanitizeUserInput (s_message input))"
  let ?g = "generateGeminiResponse e w (sanitizeUserInput (s_message input))"
  let ?m = "text_row (s_userId input) role_model (gr_response ?g)"
  from store have "store_available (Suc 1) d" by (simp add: numeral_2_eq_2)
  from addMessage_available [OF this, of ?u] obtain d1 where
    1: "addMessage ?u d = (Inr (new_row ?u d), d1)" "rows d1 = rows d @ [new_row ?u d]"
       "next_id d1 = Suc (next_id d)" "clock d1 = Suc (clock d)" "store_available (Suc 0) d1"
    by auto
  from addMessage_available [OF 1(5), of ?m] obtain d2 where
    2: "addMessage ?m d1 = (Inr (new_row ?m d1), d2)" "rows d2 = rows d1 @ [new_row ?m d1]"
    by auto
  have row: "new_row ?m d1 = (new_row ?m d)\<lparr>msg_id := Suc (next_id d), created_at := Suc (clock d)\<rparr>"
    using 1 by (simp add: new_row_def)
  have call: "sendMessage e w ctx input d =
      (Inr \<lparr>sm_success = True, sm_userMessage = new_row ?u d, sm_aiMessage = new_row ?m d1,
            sm_aiResponse = gr_response ?g, sm_geminiSuccess = gr_success ?g,
            sm_geminiError = gr_error ?g\<rparr>, d2)"
    using valid 1 2
    by (simp add: sendMessage_def procedure_call_public sendMessage_resolver_def Let_def)
  show "fst (sendMessage e w ctx input d) =
           Inr \<lparr>sm_success = True,
                sm_userMessage = new_row ?u d,
                sm_aiMessage = (new_row ?m d)\<lparr>msg_id := Suc (next_id d), created_at := Suc (clock d)\<rparr>,
                sm_aiResponse = gr_response ?g,
                sm_geminiSuccess = gr_success ?g,
                sm_geminiError = gr_error ?g\<rparr>"
    by (simp add: call row)
  show "rows (snd (sendMessage e w ctx input d)) =
           rows d @ [new_row ?u d, (new_row ?m d)\<lparr>msg_id := Suc (next_id d), created_at := Suc (clock d)\<rparr>]"
    using 1 2 by (simp add: call row)
qed


lemma text_success_no_error:
  "gr_success (generateGeminiResponse e w m) \<Longrightarrow> gr_error (generateGeminiResponse e w m) = None"
  by (auto simp add: generateGeminiResponse_def text_catch_def split: if_splits sum.splits js_exn.splits)

lemma hello_sanitized: "sanitizeUserInput (js ''Hello'') = js ''Hello''"
  by code_simp

section \<open>sendMessage\<close>

text \<open>
  C2. For a valid message (1 to 2000 code units) whose text adapter call succeeds, with the
  store answering both inserts, sendMessage appends exactly two rows: the sanitised
  message as \<open>user\<close>/\<open>text\<close>, then the adapter's reply as \<open>model\<close>/\<open>text\<close>, with the
  earlier creation time on the first; it returns both rows, the reply text and the
  success flag; and in a store whose counters are ahead of its rows, the user's history
  read back afterwards is the old one followed by the two rows in that order.
\<close>

theorem sendMessage_stores_pair:
  assumes "1 \<le> length (s_message input)" and "length (s_message input) \<le> 2000"
    and "gr_success (generateGeminiResponse e w (sanitizeUserInput (s_message input)))"
    and "store_available 2 d"
  shows
    "(let reply = generateGeminiResponse e w (sanitizeUserInput (s_message input));
          userMessage = \<lparr>user_id = s_userId input, role = role_user,
                          content = sanitizeUserInput (s_message input), content_type = ct_text,
                          msg_id = next_id d, created_at = clock d\<rparr>;
          aiMessage = \<lparr>user_id = s_userId input, role = role_model,
                        content = gr_response reply, content_type = ct_text,
                        msg_id = next_id d + 1, created_at = clock d + 1\<rparr>
      in fst (sendMessage e w ctx input d) =
           Inr \<lparr>sm_success = True, sm_userMessage = userMessage, sm_aiMessage = aiMessage,
                sm_aiResponse = gr_response reply, sm_geminiSuccess = True,
                sm_geminiError = None\<rparr>
         \<and> rows (snd (sendMessage e w ctx input d)) = rows d @ [userMessage, aiMessage]
         \<and> created_at userMessage < created_at aiMessage
         \<and> (store_consistent d \<longrightarrow>
               sort_key created_at
                 (filter (\<lambda>r. user_id r = s_userId input) (rows (snd (sendMessage e w ctx input d))))
               = sort_key created_at (filter (\<lambda>r. user_id r = s_userId input) (rows d))
                 @ [userMessage, aiMessage]))"
proof -
  from assms(1,2) have valid: "sendMessage_issues input = []"
    by (auto simp add: sendMessage_issues_def z_min_def z_max_def)
  let ?reply = "generateGeminiResponse e w (sanitizeUserInput (s_message input))"
  let ?u = "\<lparr>user_id = s_userId input, role = role_user,
             content = sanitizeUserInput (s_message input), content_type = ct_text,
             msg_id = next_id d, created_at = clock d\<rparr>"
  let ?m = "\<lparr>user_id = s_userId input, role = role_model,
             content = gr_response ?reply, content_type = ct_text,
             msg_id = next_id d + 1, created_at = clock d + 1\<rparr>"
  have stored: "rows (snd (sendMessage e w ctx input d)) = rows d @ [?u, ?m]"
    using sendMessage_pair(2) [OF valid assms(4), of e w ctx]
    by (simp add: new_row_def text_row_def)
  have returned: "fst (sendMessage e w ctx input d) =
           Inr \<lparr>sm_success = True, sm_userMessage = ?u, sm_aiMessage = ?m,
                sm_aiResponse = gr_response ?reply, sm_geminiSuccess = True,
                sm_geminiError = None\<rparr>"
    using sendMessage_pair(1) [OF valid assms(4), of e w ctx] assms(3)
      text_success_no_error [OF assms(3)]
    by (simp add: new_row_def text_row_def)
  have history: "store_consistent d \<Longrightarrow>
      sort_key created_at (filter (\<lambda>r. user_id r = s_userId input) (rows d @ [?u, ?m]))
        = sort_key created_at (filter (\<lambda>r. user_id r = s_userId input) (rows d)) @ [?u, ?m]"
    by (rule history_after_pair) simp_all
  show ?thesis
    using stored returned history by (simp add: Let_def)
qed

text \<open>The scenario \<open>sendMessage("Hello", "u1")\<close> with an adapter answering \<open>Hi there\<close>.\<close>

theorem sendMessage_stores_pair_witness:
  "1 \<le> length (js ''Hello'') \<and> length (js ''Hello'') \<le> 2000
   \<and> gr_success (generateGeminiResponse key_free_env gemini_world (sanitizeUserInput (js ''Hello'')))
   \<and> store_available 2 example_db
   \<and> fst (sendMessage key_free_env gemini_world anonymous
             \<lparr>s_message = js ''Hello'', s_userId = js ''u1''\<rparr> example_db) =
        Inr \<lparr>sm_success = True,
             sm_userMessage = \<lparr>user_id = js ''u1'', role = role_user, content = js ''Hello'',
                                content_type = ct_text, msg_id = 2, created_at = 2\<rparr>,
             sm_aiMessage = \<lparr>user_id = js ''u1'', role = role_model, content = js ''Hi there'',
                              content_type = ct_text, msg_id = 3, created_at = 3\<rparr>,
             sm_aiResponse = js ''Hi there'', sm_geminiSuccess = True, sm_geminiError = None\<rparr>
   \<and> rows (snd (sendMessage key_free_env gemini_world anonymous
             \<lparr>s_message = js ''Hello'', s_userId = js ''u1''\<rparr> example_db)) =
        rows example_db @
          [\<lparr>user_id = js ''u1'', role = role_user, content = js ''Hello'',
            content_type = ct_text, msg_id = 2, created_at = 2\<rparr>,
           \<lparr>user_id = js ''u1'', role = role_model, content = js ''Hi there'',
            content_type = ct_text, msg_id = 3, created_at = 3\<rparr>]
   \<and> store_consistent example_db
   \<and> sort_key created_at
         (filter (\<lambda>r. user_id r = js ''u1'')
            (rows (snd (sendMessage key_free_env gemini_world anonymous
                     \<lparr>s_message = js ''Hello'', s_userId = js ''u1''\<rparr> example_db)))) =
        [\<lparr>user_id = js ''u1'', role = role_user, content = js ''Hello'',
          content_type = ct_text, msg_id = 0, created_at = 0\<rparr>,
         \<lparr>user_id = js ''u1'', role = role_user, content = js ''Hello'',
          content_type = ct_text, msg_id = 2, created_at = 2\<rparr>,
         \<lparr>user_id = js ''u1'', role = role_model, content = js ''Hi there'',
          content_type = ct_text, msg_id = 3, created_at = 3\<rparr>]"
proof -
  have len: "1 \<le> length (js ''Hello'') \<and> length (js ''Hello'') \<le> 2000"
    by (simp add: js_def)
  have ok: "generateGeminiResponse key_free_env gemini_world (sanitizeUserInput (js ''Hello''))
              = \<lparr>gr_response = js ''Hi there'', gr_success = True, gr_error = None\<rparr>"
    by (simp add: generateGeminiResponse_def example_defs truthy_def js_Nil_iff)
  have store: "store_available 2 example_db"
    by (simp add: store_available_def example_db_def)
  have consistent: "store_consistent example_db"
    by (simp add: store_consistent_def example_db_def)
  show ?thesis
    using len ok store consistent
      sendMessage_stores_pair [of "\<lparr>s_message = js ''Hello'', s_userId = js ''u1''\<rparr>"
        key_free_env gemini_world example_db anonymous]
    by (simp add: Let_def hello_sanitized example_db_def js_eq_iff)
qed

section \<open>Quota and overload\<close>

lemma startsWith_includes: "startsWith s t \<Longrightarrow> includes_str s t"
  by (cases s) (simp_all add: startsWith_def)

lemma includes_str_here: "includes_str (t @ b) t"
  by (rule startsWith_includes) (simp add: startsWith_def)

lemma includes_str_middle: "includes_str (a @ t @ b) t"
proof (induction a)
  case Nil
  show ?case using includes_str_here [of t b] by simp
next
  case (Cons x a)
  then show ?case by simp
qed

lemma overloaded_response_suggests: "includes_str overloaded_response image_suggestion"
proof -
  have split: "overloaded_response =
      ([0xD83E, 0xDD16]
       @ js '' I apologize, but the AI text service is temporarily overloaded due to high demand. Please try again in a few minutes.\<newline>\<newline>''
       @ [0xD83D, 0xDCA1]
       @ js '' **Good news:** Image generation is still working! '')
      @ image_suggestion
      @ js ''\<newline>\<newline>Example: `/image a beautiful sunset over mountains`''"
    by (simp add: overloaded_response_def)
  show ?thesis by (subst split) (rule includes_str_middle)
qed

lemma overloaded_tag_is_quota: "is_quota_message (js ''Service temporarily overloaded'')"
  unfolding is_quota_message_def by code_simp

text \<open>When the adapter reports quota or overload, and what it then answers.\<close>

lemma reports_overload_iff:
  "reports_overload (generateGeminiResponse e w userMessage)
     \<longleftrightarrow> truthy (GEMINI_API_KEY e)
         \<and> (\<exists>m. gemini_generateContent w (text_prompt userMessage) = Inl (JsError m)
                  \<and> \<not> includes_str m (js ''API_KEY'') \<and> is_quota_message m)"
  using overloaded_tag_is_quota
  by (auto simp add: reports_overload_def generateGeminiResponse_def text_catch_def js_eq_iff
      split: sum.splits js_exn.splits)

lemma reports_overload_response:
  assumes "reports_overload (generateGeminiResponse e w userMessage)"
  shows "generateGeminiResponse e w userMessage =
           \<lparr>gr_response = overloaded_response, gr_success = False,
            gr_error = Some (js ''Service temporarily overloaded'')\<rparr>"
proof -
  from assms obtain m where "truthy (GEMINI_API_KEY e)"
    and "gemini_generateContent w (text_prompt userMessage) = Inl (JsError m)"
    and "\<not> includes_str m (js ''API_KEY'')" and "is_quota_message m"
    unfolding reports_overload_iff by blast
  then show ?thesis
    by (simp add: generateGeminiResponse_def text_catch_def)
qed

text \<open>
  C3. When the text adapter reports quota or overload for a valid message, and the store
  answers both inserts, sendMessage still returns a result, not an error: the failure
  shows only in \<open>geminiSuccess = false\<close>; and the \<open>model\<close>/\<open>text\<close> row it stores after the
  user row holds the overload reply, which contains the suggestion of the image command.
\<close>

theorem sendMessage_on_overload:
  assumes "1 \<le> length (s_message input)" and "length (s_message input) \<le> 2000"
    and "reports_overload (generateGeminiResponse e w (sanitizeUserInput (s_message input)))"
    and "store_available 2 d"
  shows
    "(let userMessage = \<lparr>user_id = s_userId input, role = role_user,
                          content = sanitizeUserInput (s_message input), content_type = ct_text,
                          msg_id = next_id d, created_at = clock d\<rparr>;
          aiMessage = \<lparr>user_id = s_userId input, role = role_model,
                        content = overloaded_response, content_type = ct_text,
                        msg_id = next_id d + 1, created_at = clock d + 1\<rparr>
      in fst (sendMessage e w ctx input d) =
           Inr \<lparr>sm_success = True, sm_userMessage = userMessage, sm_aiMessage = aiMessage,
                sm_aiResponse = overloaded_response, sm_geminiSuccess = False,
                sm_geminiError = Some (js ''Service temporarily overloaded'')\<rparr>
         \<and> rows (snd (sendMessage e w ctx input d)) = rows d @ [userMessage, aiMessage]
         \<and> includes_str (content aiMessage) image_suggestion)"
proof -
  from assms(1,2) have valid: "sendMessage_issues input = []"
    by (auto simp add: sendMessage_issues_def z_min_def z_max_def)
  show ?thesis
    using sendMessage_pair [OF valid assms(4), of e w ctx]
      reports_overload_response [OF assms(3)] overloaded_response_suggests
    by (simp add: Let_def new_row_def text_row_def)
qed

lemma overload_message_is_quota:
  "is_quota_message (js ''[503 Service Unavailable] The model is overloaded.'')
   \<and> \<not> includes_str (js ''[503 Service Unavailable] The model is overloaded.'') (js ''API_KEY'')"
  unfolding is_quota_message_def by code_simp

text \<open>The message \<open>Hello\<close> of user \<open>u1\<close> while Gemini answers 503.\<close>

theorem sendMessage_on_overload_witness:
  "1 \<le> length (js ''Hello'') \<and> length (js ''Hello'') \<le> 2000
   \<and> reports_overload (generateGeminiResponse key_free_env overloaded_world (sanitizeUserInput (js ''Hello'')))
   \<and> store_available 2 example_db
   \<and> fst (sendMessage key_free_env overloaded_world anonymous
             \<lparr>s_message = js ''Hello'', s_userId = js ''u1''\<rparr> example_db) =
        Inr \<lparr>sm_success = True,
             sm_userMessage = \<lparr>user_id = js ''u1'', role = role_user, content = js ''Hello'',
                                content_type = ct_text, msg_id = 2, created_at = 2\<rparr>,
             sm_aiMessage = \<lparr>user_id = js ''u1'', role = role_model, content = overloaded_response,
                              content_type = ct_text, msg_id = 3, created_at = 3\<rparr>,
             sm_aiResponse = overloaded_response, sm_geminiSuccess = False,
             sm_geminiError = Some (js ''Service temporarily overloaded'')\<rparr>
   \<and> includes_str overloaded_response image_suggestion"
proof -
  have len: "1 \<le> length (js ''Hello'') \<and> length (js ''Hello'') \<le> 2000"
    by (simp add: js_def)
  have over: "reports_overload (generateGeminiResponse key_free_env overloaded_world (sanitizeUserInput (js ''Hello'')))"
    using overload_message_is_quota
    by (simp add: reports_overload_iff example_defs truthy_def js_Nil_iff)
  have store: "store_available 2 example_db"
    by (simp add: store_available_def example_db_def)
  show ?thesis
    using len over store
      sendMessage_on_overload [of "\<lparr>s_message = js ''Hello'', s_userId = js ''u1''\<rparr>"
        key_free_env overloaded_world example_db anonymous]
    by (simp add: Let_def hello_sanitized example_db_def)
qed

section \<open>generateImage\<close>

lemma generateImage_issues_valid:
  "1 \<le> length (g_prompt input) \<Longrightarrow> length (g_prompt input) \<le> 1000
     \<Longrightarrow> 1 \<le> length (g_userId input) \<Longrightarrow> generateImageInput input = []"
  by (auto simp add: generateImageInput_def z_min_def z_max_def)

text \<open>
  C5. For a valid prompt and user id, with the store answering the insert: when the image
  adapter reports failure, generateImage ends with an internal error carrying the
  adapter's error text, and the store holds exactly one more row, the user's prompt as
  \<open>user\<close>/\<open>text\<close>: no model row, and the user row is neither removed nor changed.
  sendMessage, in contrast, stores the user row and a model row whatever its adapter
  answers.
\<close>

theorem generateImage_orphans_prompt:
  assumes "1 \<le> length (g_prompt input)" and "length (g_prompt input) \<le> 1000"
    and "1 \<le> length (g_userId input)"
    and "store_available 1 d"
    and "\<not> gi_success (generateGeminiImage e w (sanitizeUserInput (g_prompt input)))"
  shows
    "fst (generateImage e w ctx input d) =
       Inl \<lparr>code = INTERNAL_SERVER_ERROR,
            message = Message (or_else (gi_error (generateGeminiImage e w (sanitizeUserInput (g_prompt input))))
                                 (js ''Failed to generate image''))\<rparr>
     \<and> rows (snd (generateImage e w ctx input d)) =
         rows d @ [\<lparr>user_id = g_userId input, role = role_user,
                     content = sanitizeUserInput (g_prompt input), content_type = ct_text,
                     msg_id = next_id d, created_at = clock d\<rparr>]
     \<and> (\<forall>s::sendMessage_input. 1 \<le> length (s_message s) \<and> length (s_message s) \<le> 2000 \<and> store_available 2 d
            \<longrightarrow> (\<exists>userMessage aiMessage.
                   rows (snd (sendMessage e w ctx s d)) = rows d @ [userMessage, aiMessage]
                   \<and> role userMessage = role_user \<and> role aiMessage = role_model))"
proof (intro conjI allI impI)
  let ?u = "text_row (g_userId input) role_user (sanitizeUserInput (g_prompt input))"
  from assms(4) have "store_available (Suc 0) d" by simp
  from addMessage_available [OF this, of ?u] obtain d1 where
    1: "addMessage ?u d = (Inr (new_row ?u d), d1)" "rows d1 = rows d @ [new_row ?u d]"
    by auto
  have call: "generateImage e w ctx input d =
      (Inl (trpc_error INTERNAL_SERVER_ERROR
              (or_else (gi_error (generateGeminiImage e w (sanitizeUserInput (g_prompt input))))
                 (js ''Failed to generate image''))), d1)"
    using generateImage_issues_valid [OF assms(1,2,3)] 1 assms(5)
    by (simp add: generateImage_def procedure_call_public generateImage_resolver_def
        generateImage_try_def Let_def)
  show "fst (generateImage e w ctx input d) =
       Inl \<lparr>code = INTERNAL_SERVER_ERROR,
            message = Message (or_else (gi_error (generateGeminiImage e w (sanitizeUserInput (g_prompt input))))
                                 (js ''Failed to generate image''))\<rparr>"
    by (simp add: call trpc_error_def)
  show "rows (snd (generateImage e w ctx input d)) =
         rows d @ [\<lparr>user_id = g_userId input, role = role_user,
                     content = sanitizeUserInput (g_prompt input), content_type = ct_text,
                     msg_id = next_id d, created_at = clock d\<rparr>]"
    using 1 by (simp add: call new_row_def text_row_def)
next
  fix s :: sendMessage_input
  assume h: "1 \<le> length (s_message s) \<and> length (s_message s) \<le> 2000 \<and> store_available 2 d"
  then have valid: "sendMessage_issues s = []"
    by (auto simp add: sendMessage_issues_def z_min_def z_max_def)
  from h have store: "store_available 2 d" by simp
  show "\<exists>userMessage aiMessage.
          rows (snd (sendMessage e w ctx s d)) = rows d @ [userMessage, aiMessage]
          \<and> role userMessage = role_user \<and> role aiMessage = role_model"
    using sendMessage_pair(2) [OF valid store, of e w ctx]
    by (simp add: new_row_def text_row_def)
qed

lemma angle_sanitized: "sanitizeUserInput (js ''<>'') = []"
  by code_simp

text \<open>The prompt \<open><>\<close>: it passes the schema, and is empty once sanitised.\<close>

theorem generateImage_orphans_prompt_witness:
  "1 \<le> length (js ''<>'') \<and> length (js ''<>'') \<le> 1000 \<and> 1 \<le> length (js ''u1'')
   \<and> store_available 1 example_db
   \<and> \<not> gi_success (generateGeminiImage key_free_env offline_world (sanitizeUserInput (js ''<>'')))
   \<and> fst (generateImage key_free_env offline_world anonymous
             \<lparr>g_prompt = js ''<>'', g_userId = js ''u1''\<rparr> example_db) =
        Inl \<lparr>code = INTERNAL_SERVER_ERROR, message = Message (js ''Prompt cannot be empty'')\<rparr>
   \<and> rows (snd (generateImage key_free_env offline_world anonymous
             \<lparr>g_prompt = js ''<>'', g_userId = js ''u1''\<rparr> example_db)) =
        rows example_db @ [\<lparr>user_id = js ''u1'', role = role_user, content = [],
                             content_type = ct_text, msg_id = 2, created_at = 2\<rparr>]
   \<and> 1 \<le> length (js ''Hello'') \<and> length (js ''Hello'') \<le> 2000 \<and> store_available 2 example_db
   \<and> length (rows (snd (sendMessage key_free_env offline_world anonymous
             \<lparr>s_message = js ''Hello'', s_userId = js ''u1''\<rparr> example_db))) = 4
   \<and> role (last (rows (snd (sendMessage key_free_env offline_world anonymous
             \<lparr>s_message = js ''Hello'', s_userId = js ''u1''\<rparr> example_db)))) = role_model"
proof -
  have len: "1 \<le> length (js ''<>'') \<and> length (js ''<>'') \<le> 1000 \<and> 1 \<le> length (js ''u1'')"
    by (simp add: js_def)
  have store: "store_available 1 example_db"
    by (simp add: store_available_def example_db_def)
  have empty: "sanitizeUserInput [] = []"
    by (simp add: sanitizeUserInput_def trim_def)
  have fails: "generateGeminiImage key_free_env offline_world (sanitizeUserInput (js ''<>''))
     = \<lparr>gi_imageUrl = [], gi_success = False, gi_error = Some (js ''Prompt cannot be empty'')\<rparr>"
    by (simp add: generateGeminiImage_def generateGeminiImage_traced_def image_try_def
        image_failure_def angle_sanitized empty example_defs truthy_def js_Nil_iff)
  have len2: "1 \<le> length (js ''Hello'') \<and> length (js ''Hello'') \<le> 2000"
    by (simp add: js_def)
  have store2: "store_available 2 example_db"
    by (simp add: store_available_def example_db_def)
  note claim = generateImage_orphans_prompt [of "\<lparr>g_prompt = js ''<>'', g_userId = js ''u1''\<rparr>"
        example_db key_free_env offline_world anonymous]
  from claim len store fails
  have "\<forall>s::sendMessage_input.
          1 \<le> length (s_message s) \<and> length (s_message s) \<le> 2000 \<and> store_available 2 example_db
          \<longrightarrow> (\<exists>userMessage aiMessage.
                 rows (snd (sendMessage key_free_env offline_world anonymous s example_db))
                   = rows example_db @ [userMessage, aiMessage]
                 \<and> role userMessage = role_user \<and> role aiMessage = role_model)"
    by simp
  then have "1 \<le> length (s_message \<lparr>s_message = js ''Hello'', s_userId = js ''u1''\<rparr>)
          \<and> length (s_message \<lparr>s_message = js ''Hello'', s_userId = js ''u1''\<rparr>) \<le> 2000
          \<and> store_available 2 example_db
          \<longrightarrow> (\<exists>userMessage aiMessage.
                 rows (snd (sendMessage key_free_env offline_world anonymous
                              \<lparr>s_message = js ''Hello'', s_userId = js ''u1''\<rparr> example_db))
                   = rows example_db @ [userMessage, aiMessage]
                 \<and> role userMessage = role_user \<and> role aiMessage = role_model)"
    by (rule spec)
  with len2 store2 obtain userMessage aiMessage where
    pair: "rows (snd (sendMessage key_free_env offline_world anonymous
             \<lparr>s_message = js ''Hello'', s_userId = js ''u1''\<rparr> example_db))
           = rows example_db @ [userMessage, aiMessage]"
      "role aiMessage = role_model"
    by auto
  have sent: "length (rows (snd (sendMessage key_free_env offline_world anonymous
             \<lparr>s_message = js ''Hello'', s_userId = js ''u1''\<rparr> example_db))) = 4
   \<and> role (last (rows (snd (sendMessage key_free_env offline_world anonymous
             \<lparr>s_message = js ''Hello'', s_userId = js ''u1''\<rparr> example_db)))) = role_model"
    using pair by (simp add: example_db_def)
  show ?thesis
    using len store fails len2 store2 sent claim
    by (simp add: angle_sanitized or_else_def js_Nil_iff example_db_def)
qed

section \<open>Input validation\<close>

text \<open>
  C7. An input that the schema rejects (an empty message or prompt, a message of more
  than 2000 code units, a prompt of more than 1000) makes sendMessage and generateImage
  fail with a \<open>BAD_REQUEST\<close> error that lists the failed checks, and leaves the store as it
  was: no row is inserted and no request is made to it.
\<close>

theorem rejected_input_not_stored:
  "(s_message s = [] \<or> length (s_message s) > 2000
      \<longrightarrow> sendMessage e w ctx s d =
            (Inl \<lparr>code = BAD_REQUEST, message = ZodIssues (sendMessage_issues s)\<rparr>, d)
          \<and> sendMessage_issues s
              = (if s_message s = [] then [js ''Message cannot be empty'']
                 else [js ''Message too long'']))
   \<and> (g_prompt g = [] \<or> length (g_prompt g) > 1000
      \<longrightarrow> generateImage e w ctx g d =
            (Inl \<lparr>code = BAD_REQUEST, message = ZodIssues (generateImageInput g)\<rparr>, d)
          \<and> hd (generateImageInput g)
              = (if g_prompt g = [] then js ''Prompt cannot be empty''
                 else js ''Prompt too long''))"
proof (intro conjI impI)
  assume bad: "s_message s = [] \<or> length (s_message s) > 2000"
  then show issues: "sendMessage_issues s
              = (if s_message s = [] then [js ''Message cannot be empty'']
                 else [js ''Message too long''])"
    by (auto simp add: sendMessage_issues_def z_min_def z_max_def)
  then show "sendMessage e w ctx s d =
            (Inl \<lparr>code = BAD_REQUEST, message = ZodIssues (sendMessage_issues s)\<rparr>, d)"
    by (simp add: sendMessage_def procedure_call_public split: if_splits)
next
  assume bad: "g_prompt g = [] \<or> length (g_prompt g) > 1000"
  then have issues: "\<exists>rest. generateImageInput g
              = (if g_prompt g = [] then js ''Prompt cannot be empty''
                 else js ''Prompt too long'') # rest"
    by (auto simp add: generateImageInput_def z_min_def z_max_def)
  then show "hd (generateImageInput g)
              = (if g_prompt g = [] then js ''Prompt cannot be empty''
                 else js ''Prompt too long'')"
    by auto
  from issues show "generateImage e w ctx g d =
            (Inl \<lparr>code = BAD_REQUEST, message = ZodIssues (generateImageInput g)\<rparr>, d)"
    by (auto simp add: generateImage_def procedure_call_public)
qed

text \<open>An empty message, and a prompt of 1001 spaces.\<close>

theorem rejected_input_not_stored_witness:
  "s_message \<lparr>s_message = [], s_userId = js ''u1''\<rparr> = []
   \<and> sendMessage key_free_env gemini_world anonymous \<lparr>s_message = [], s_userId = js ''u1''\<rparr> example_db
       = (Inl \<lparr>code = BAD_REQUEST, message = ZodIssues [js ''Message cannot be empty'']\<rparr>, example_db)
   \<and> length (g_prompt \<lparr>g_prompt = replicate 1001 0x20, g_userId = js ''u1''\<rparr>) > 1000
   \<and> generateImage key_free_env huggingface_world anonymous
         \<lparr>g_prompt = replicate 1001 0x20, g_userId = js ''u1''\<rparr> example_db
       = (Inl \<lparr>code = BAD_REQUEST, message = ZodIssues [js ''Prompt too long'']\<rparr>, example_db)"
proof -
  have issues: "generateImageInput \<lparr>g_prompt = replicate 1001 0x20, g_userId = js ''u1''\<rparr>
                  = [js ''Prompt too long'']"
    by (simp add: generateImageInput_def z_min_def z_max_def js_Nil_iff)
  show ?thesis
    using issues
      rejected_input_not_stored [of "\<lparr>s_message = [], s_userId = js ''u1''\<rparr>"
        key_free_env gemini_world anonymous example_db
        "\<lparr>g_prompt = replicate 1001 0x20, g_userId = js ''u1''\<rparr>"]
      rejected_input_not_stored [of "\<lparr>s_message = [], s_userId = js ''u1''\<rparr>"
        key_free_env huggingface_world anonymous example_db
        "\<lparr>g_prompt = replicate 1001 0x20, g_userId = js ''u1''\<rparr>"]
    by simp
qed

section \<open>clearHistory\<close>

text \<open>
  C8. With the store answering, \<open>clearHistory(u1)\<close> succeeds and leaves no row of
  \<open>u1\<close>, a following \<open>getChatHistory(u1)\<close> returns the empty sequence with count 0, and
  for every other user \<open>u2\<close> the stored rows, and so the history read back, are what
  they were.
\<close>

theorem clearHistory_isolated:
  assumes "u1 \<noteq> u2" and "store_available 2 d"
  shows
    "fst (clearHistory ctx \<lparr>h_userId = u1\<rparr> d) =
       Inr \<lparr>ch_success = True, ch_message = js ''Chat history cleared successfully''\<rparr>
     \<and> fst (getChatHistory ctx' \<lparr>h_userId = u1\<rparr> (snd (clearHistory ctx \<lparr>h_userId = u1\<rparr> d))) =
       Inr \<lparr>gh_success = True, gh_messages = [], gh_count = 0\<rparr>
     \<and> filter (\<lambda>m. user_id m = u1) (rows (snd (clearHistory ctx \<lparr>h_userId = u1\<rparr> d))) = []
     \<and> filter (\<lambda>m. user_id m = u2) (rows (snd (clearHistory ctx \<lparr>h_userId = u1\<rparr> d)))
       = filter (\<lambda>m. user_id m = u2) (rows d)
     \<and> fst (getChatHistory ctx' \<lparr>h_userId = u2\<rparr> (snd (clearHistory ctx \<lparr>h_userId = u1\<rparr> d)))
       = fst (getChatHistory ctx' \<lparr>h_userId = u2\<rparr> d)"
proof -
  from assms(2) have s2: "store_available (Suc (Suc 0)) d" by (simp add: numeral_2_eq_2)
  from clearUserHistory_available [OF s2, of u1] obtain d1 where
    1: "clearUserHistory u1 d = (Inr (), d1)"
       "rows d1 = filter (\<lambda>m. user_id m \<noteq> u1) (rows d)" "store_available (Suc 0) d1"
    by auto
  have call: "clearHistory ctx \<lparr>h_userId = u1\<rparr> d =
      (Inr \<lparr>ch_success = True, ch_message = js ''Chat history cleared successfully''\<rparr>, d1)"
    using 1 by (simp add: clearHistory_def procedure_call_public history_issues_def
        clearHistory_resolver_def)
  have other: "filter (\<lambda>m. user_id m = u2) (rows d1) = filter (\<lambda>m. user_id m = u2) (rows d)"
    using assms(1) 1(2) by (auto intro: filter_cong)
  have own: "filter (\<lambda>m. user_id m = u1) (rows d1) = []"
    using 1(2) by simp
  have get: "\<And>u d0. store_available (Suc 0) d0 \<Longrightarrow>
      fst (getChatHistory ctx' \<lparr>h_userId = u\<rparr> d0) =
        Inr \<lparr>gh_success = True,
             gh_messages = sort_key created_at (filter (\<lambda>m. user_id m = u) (rows d0)),
             gh_count = length (filter (\<lambda>m. user_id m = u) (rows d0))\<rparr>"
  proof -
    fix u d0
    assume "store_available (Suc 0) d0"
    from getMessagesForUser_available [OF this, of u] obtain d' where
      "getMessagesForUser u d0
         = (Inr (sort_key created_at (filter (\<lambda>m. user_id m = u) (rows d0))), d')" by auto
    then show "fst (getChatHistory ctx' \<lparr>h_userId = u\<rparr> d0) =
        Inr \<lparr>gh_success = True,
             gh_messages = sort_key created_at (filter (\<lambda>m. user_id m = u) (rows d0)),
             gh_count = length (filter (\<lambda>m. user_id m = u) (rows d0))\<rparr>"
      by (simp add: getChatHistory_def procedure_call_public history_issues_def
          getChatHistory_resolver_def)
  qed
  from s2 have s1: "store_available (Suc 0) d"
    by (cases "faults d") (auto simp add: store_available_def)
  show ?thesis
    using get [OF 1(3), of u1] get [OF 1(3), of u2] get [OF s1, of u2] own other
    by (simp add: call)
qed

text \<open>Clearing the history of \<open>u1\<close> in the example store, which holds a row of \<open>u2\<close>.\<close>

theorem clearHistory_isolated_witness:
  "js ''u1'' \<noteq> js ''u2'' \<and> store_available 2 example_db
   \<and> fst (getChatHistory anonymous \<lparr>h_userId = js ''u1''\<rparr>
           (snd (clearHistory anonymous \<lparr>h_userId = js ''u1''\<rparr> example_db))) =
       Inr \<lparr>gh_success = True, gh_messages = [], gh_count = 0\<rparr>
   \<and> filter (\<lambda>m. user_id m = js ''u2'')
        (rows (snd (clearHistory anonymous \<lparr>h_userId = js ''u1''\<rparr> example_db)))
       = [\<lparr>user_id = js ''u2'', role = role_user, content = js ''Bonjour'',
           content_type = ct_text, msg_id = 1, created_at = 1\<rparr>]"
proof -
  have ne: "js ''u1'' \<noteq> js ''u2''" by (simp add: js_eq_iff)
  have store: "store_available 2 example_db"
    by (simp add: store_available_def example_db_def)
  show ?thesis
    using ne store clearHistory_isolated [OF ne store, of anonymous anonymous]
    by (simp add: example_db_def js_eq_iff)
qed

section \<open>The Gemini key and the image adapter\<close>

lemma image_no_key:
  "\<not> truthy (GEMINI_API_KEY e) \<Longrightarrow>
     generateGeminiImage_traced e w prompt =
       (\<lparr>gi_imageUrl = [], gi_success = False, gi_error = Some (js ''Gemini API key not configured'')\<rparr>, [])"
  by (simp add: generateGeminiImage_traced_def image_try_def image_failure_def)

lemma image_key_value_unused:
  "truthy k \<Longrightarrow> truthy k' \<Longrightarrow>
     generateGeminiImage_traced (e\<lparr>GEMINI_API_KEY := k\<rparr>) w prompt
       = generateGeminiImage_traced (e\<lparr>GEMINI_API_KEY := k'\<rparr>) w prompt"
proof -
  assume k: "truthy k" "truthy k'"
  have hf: "\<And>v p. attempt_huggingface (e\<lparr>GEMINI_API_KEY := v\<rparr>) w p = attempt_huggingface e w p"
    by (simp add: attempt_huggingface_def)
  have oa: "\<And>v p. attempt_openai (e\<lparr>GEMINI_API_KEY := v\<rparr>) w p = attempt_openai e w p"
    by (simp add: attempt_openai_def)
  show ?thesis
    unfolding generateGeminiImage_traced_def image_try_def hf oa using k by simp
qed

text \<open>
  C9. Without \<open>GEMINI_API_KEY\<close> the image adapter returns at once
  \<open>success = false\<close> with the error \<open>Gemini API key not configured\<close>: no provider is sent
  a request and no placeholder is made; generateImage, on a valid input, then ends with an
  internal error, which carries that text when the store took the user row. Yet the key
  is used by no provider: any two non-empty values of it give the same result and the
  same requests.
\<close>

theorem gemini_key_gates_image_chain:
  "(\<not> truthy (GEMINI_API_KEY e) \<longrightarrow>
      generateGeminiImage e w prompt =
        \<lparr>gi_imageUrl = [], gi_success = False, gi_error = Some (js ''Gemini API key not configured'')\<rparr>
      \<and> providers_invoked e w prompt = []
      \<and> (generateImageInput input = [] \<longrightarrow>
            (\<exists>err. fst (generateImage e w ctx input d) = Inl err \<and> code err = INTERNAL_SERVER_ERROR))
      \<and> (generateImageInput input = [] \<and> store_available 1 d \<longrightarrow>
            fst (generateImage e w ctx input d) =
              Inl \<lparr>code = INTERNAL_SERVER_ERROR,
                   message = Message (js ''Gemini API key not configured'')\<rparr>))
   \<and> (truthy k \<and> truthy k' \<longrightarrow>
        generateGeminiImage (e\<lparr>GEMINI_API_KEY := k\<rparr>) w prompt
          = generateGeminiImage (e\<lparr>GEMINI_API_KEY := k'\<rparr>) w prompt
        \<and> providers_invoked (e\<lparr>GEMINI_API_KEY := k\<rparr>) w prompt
          = providers_invoked (e\<lparr>GEMINI_API_KEY := k'\<rparr>) w prompt)"
proof (intro conjI impI)
  assume nokey: "\<not> truthy (GEMINI_API_KEY e)"
  show "generateGeminiImage e w prompt =
        \<lparr>gi_imageUrl = [], gi_success = False, gi_error = Some (js ''Gemini API key not configured'')\<rparr>"
    by (simp add: generateGeminiImage_def image_no_key [OF nokey])
  show "providers_invoked e w prompt = []"
    by (simp add: providers_invoked_def image_no_key [OF nokey])
  have fails: "\<And>p. generateGeminiImage e w p =
        \<lparr>gi_imageUrl = [], gi_success = False, gi_error = Some (js ''Gemini API key not configured'')\<rparr>"
    by (simp add: generateGeminiImage_def image_no_key [OF nokey])
  {
    assume valid: "generateImageInput input = []"
    show "\<exists>err. fst (generateImage e w ctx input d) = Inl err \<and> code err = INTERNAL_SERVER_ERROR"
      using valid
      by (auto simp add: generateImage_def procedure_call_public generateImage_resolver_def
          generateImage_try_def Let_def fails trpc_error_def split: prod.split sum.split)
  }
  {
    assume h: "generateImageInput input = [] \<and> store_available 1 d"
    then have "store_available (Suc 0) d" by simp
    from addMessage_available [OF this,
        of "text_row (g_userId input) role_user (sanitizeUserInput (g_prompt input))"]
    obtain d1 where "addMessage (text_row (g_userId input) role_user (sanitizeUserInput (g_prompt input))) d
        = (Inr (new_row (text_row (g_userId input) role_user (sanitizeUserInput (g_prompt input))) d), d1)"
      by auto
    with h show "fst (generateImage e w ctx input d) =
              Inl \<lparr>code = INTERNAL_SERVER_ERROR,
                   message = Message (js ''Gemini API key not configured'')\<rparr>"
      by (simp add: generateImage_def procedure_call_public generateImage_resolver_def
          generateImage_try_def Let_def fails trpc_error_def or_else_def js_Nil_iff)
  }
next
  assume "truthy k \<and> truthy k'"
  then have eq: "generateGeminiImage_traced (e\<lparr>GEMINI_API_KEY := k\<rparr>) w prompt
       = generateGeminiImage_traced (e\<lparr>GEMINI_API_KEY := k'\<rparr>) w prompt"
    using image_key_value_unused [of k k' e w prompt] by simp
  show "generateGeminiImage (e\<lparr>GEMINI_API_KEY := k\<rparr>) w prompt
          = generateGeminiImage (e\<lparr>GEMINI_API_KEY := k'\<rparr>) w prompt"
    by (simp add: generateGeminiImage_def eq)
  show "providers_invoked (e\<lparr>GEMINI_API_KEY := k\<rparr>) w prompt
          = providers_invoked (e\<lparr>GEMINI_API_KEY := k'\<rparr>) w prompt"
    by (simp add: providers_invoked_def eq)
qed

text \<open>
  The prompt \<open>a red cat\<close> with no Gemini key, in a world where Hugging Face answers:
  with the key set the same call returns its image.
\<close>

theorem gemini_key_gates_image_chain_witness:
  "\<not> truthy (GEMINI_API_KEY no_gemini_env)
   \<and> generateGeminiImage no_gemini_env huggingface_world (js ''a red cat'') =
        \<lparr>gi_imageUrl = [], gi_success = False, gi_error = Some (js ''Gemini API key not configured'')\<rparr>
   \<and> providers_invoked no_gemini_env huggingface_world (js ''a red cat'') = []
   \<and> generateImageInput \<lparr>g_prompt = js ''a red cat'', g_userId = js ''u1''\<rparr> = []
   \<and> store_available 1 example_db
   \<and> fst (generateImage no_gemini_env huggingface_world anonymous
             \<lparr>g_prompt = js ''a red cat'', g_userId = js ''u1''\<rparr> example_db) =
        Inl \<lparr>code = INTERNAL_SERVER_ERROR, message = Message (js ''Gemini API key not configured'')\<rparr>
   \<and> truthy (Some (js ''gemini-key'')) \<and> truthy (Some (js ''another-key''))
   \<and> generateGeminiImage (no_gemini_env\<lparr>GEMINI_API_KEY := Some (js ''gemini-key'')\<rparr>)
         huggingface_world (js ''a red cat'')
       = generateGeminiImage (no_gemini_env\<lparr>GEMINI_API_KEY := Some (js ''another-key'')\<rparr>)
         huggingface_world (js ''a red cat'')"
proof -
  have nokey: "\<not> truthy (GEMINI_API_KEY no_gemini_env)"
    by (simp add: example_defs truthy_def)
  have valid: "generateImageInput \<lparr>g_prompt = js ''a red cat'', g_userId = js ''u1''\<rparr> = []"
    by (simp add: generateImageInput_def z_min_def z_max_def js_def)
  have store: "store_available 1 example_db"
    by (simp add: store_available_def example_db_def)
  have keys: "truthy (Some (js ''gemini-key'')) \<and> truthy (Some (js ''another-key''))"
    by (simp add: truthy_def js_Nil_iff)
  show ?thesis
    using nokey valid store keys
      gemini_key_gates_image_chain [of no_gemini_env huggingface_world "js ''a red cat''"
        "\<lparr>g_prompt = js ''a red cat'', g_userId = js ''u1''\<rparr>" anonymous example_db
        "Some (js ''gemini-key'')" "Some (js ''another-key'')"]
    by simp
qed

section \<open>The length check of the image adapter\<close>

text \<open>
  C10. The sanitiser returns at most 2000 code units, whatever its input, so the test
  \<open>sanitizedPrompt.length > 2000\<close> of the image adapter is never true and no call returns
  the error \<open>Prompt is too long (max 2000 characters)\<close>.
\<close>

theorem too_long_branch_unreachable:
  "length (sanitizeUserInput input) \<le> 2000
   \<and> \<not> length (sanitizeUserInput prompt) > 2000
   \<and> gi_error (generateGeminiImage e w prompt)
       \<noteq> Some (js ''Prompt is too long (max 2000 characters)'')"
  using sanitizeUserInput_length [of prompt] sanitizeUserInput_length [of input]
  by (simp add: generateGeminiImage_def generateGeminiImage_traced_def image_try_def Let_def
      image_failure_def js_eq_iff placeholder_encoded split: prod.split option.split)

section \<open>When the image adapter reports failure\<close>

text \<open>
  C4, as the claim states it, fails: with no Gemini key the adapter reports
  \<open>success = false\<close> for a prompt that is neither empty nor too long.
\<close>

theorem image_failure_counterexample:
  "\<not> gi_success (generateGeminiImage no_gemini_env huggingface_world (js ''a red cat''))
   \<and> sanitizeUserInput (js ''a red cat'') \<noteq> []
   \<and> \<not> length (sanitizeUserInput (js ''a red cat'')) > 2000"
  using sanitizeUserInput_length [of "js ''a red cat''"]
  by (simp add: generateGeminiImage_success_iff red_cat_sanitized js_Nil_iff
      example_defs truthy_def)

text \<open>
  C4, amended. The image adapter reports \<open>success = false\<close> exactly when its two early
  checks that can fire do: the Gemini key is missing, or the sanitised prompt is empty.
  A provider outage never does: when the chain is entered and all three attempts yield
  nothing, the result is the placeholder URL with \<open>success = true\<close>.
\<close>

theorem image_failure_only_early:
  "(\<not> gi_success (generateGeminiImage e w prompt)
      \<longleftrightarrow> \<not> truthy (GEMINI_API_KEY e) \<or> sanitizeUserInput prompt = [])
   \<and> (truthy (GEMINI_API_KEY e) \<and> sanitizeUserInput prompt \<noteq> []
        \<and> fst (attempt_huggingface e w (sanitizeUserInput prompt)) = None
        \<and> fst (attempt_pollinations w (sanitizeUserInput prompt)) = None
        \<and> fst (attempt_openai e w (sanitizeUserInput prompt)) = None
      \<longrightarrow> generateGeminiImage e w prompt =
            \<lparr>gi_imageUrl = js ''https://via.placeholder.com/1024x1024/3498db/ffffff?text=Image%20generation%20temporarily%20unavailable.%20Trying%20multiple%20free%20services...'',
             gi_success = True,
             gi_error = Some (js ''Image generation services temporarily unavailable. We tried Hugging Face and Pollinations.ai free services.'')\<rparr>)"
  using generateGeminiImage_success_iff [of e w prompt]
    generateGeminiImage_exhausted [of e prompt w]
  by blast

text \<open>
  The prompt \<open>a red cat\<close> with every service unreachable: the placeholder with the key
  set, a failure without it.
\<close>

theorem image_failure_only_early_witness:
  "truthy (GEMINI_API_KEY key_free_env) \<and> sanitizeUserInput (js ''a red cat'') \<noteq> []
   \<and> fst (attempt_huggingface key_free_env offline_world (sanitizeUserInput (js ''a red cat''))) = None
   \<and> fst (attempt_pollinations offline_world (sanitizeUserInput (js ''a red cat''))) = None
   \<and> fst (attempt_openai key_free_env offline_world (sanitizeUserInput (js ''a red cat''))) = None
   \<and> gi_success (generateGeminiImage key_free_env offline_world (js ''a red cat''))
   \<and> gi_imageUrl (generateGeminiImage key_free_env offline_world (js ''a red cat''))
       = js ''https://via.placeholder.com/1024x1024/3498db/ffffff?text=Image%20generation%20temporarily%20unavailable.%20Trying%20multiple%20free%20services...''
   \<and> \<not> truthy (GEMINI_API_KEY no_gemini_env)
   \<and> \<not> gi_success (generateGeminiImage no_gemini_env offline_world (js ''a red cat''))"
proof -
  have entered: "truthy (GEMINI_API_KEY key_free_env) \<and> sanitizeUserInput (js ''a red cat'') \<noteq> []"
    by (simp add: example_defs truthy_def red_cat_sanitized js_Nil_iff)
  have none: "fst (attempt_huggingface key_free_env offline_world (sanitizeUserInput (js ''a red cat''))) = None
   \<and> fst (attempt_pollinations offline_world (sanitizeUserInput (js ''a red cat''))) = None
   \<and> fst (attempt_openai key_free_env offline_world (sanitizeUserInput (js ''a red cat''))) = None"
    by (simp add: attempt_huggingface_def attempt_pollinations_def attempt_openai_def
        example_defs js_Nil_iff red_cat_sanitized red_cat_encoded)
  have nokey: "\<not> truthy (GEMINI_API_KEY no_gemini_env)"
    by (simp add: example_defs truthy_def)
  show ?thesis
    using entered none nokey
      image_failure_only_early [of key_free_env offline_world "js ''a red cat''"]
      image_failure_only_early [of no_gemini_env offline_world "js ''a red cat''"]
    by simp
qed

section \<open>Authorization\<close>

text \<open>
  C6, as the claim states it, fails: a call of getChatHistory with no user attached is
  not refused; it reads the store and returns the history of the user id it was given.
\<close>

theorem unauthenticated_call_counterexample:
  "user anonymous = None
   \<and> getChatHistory anonymous \<lparr>h_userId = js ''u1''\<rparr> example_db =
       (Inr \<lparr>gh_success = True,
             gh_messages = [\<lparr>user_id = js ''u1'', role = role_user, content = js ''Hello'',
                              content_type = ct_text, msg_id = 0, created_at = 0\<rparr>],
             gh_count = 1\<rparr>, example_db)"
  by (simp add: anonymous_def getChatHistory_def procedure_call_public history_issues_def
      getChatHistory_resolver_def getMessagesForUser_def supabase_request_def example_db_def
      js_eq_iff)

text \<open>
  C6, amended. The authentication check exists: \<open>isAuthenticated\<close> refuses a context with no user, and a
  procedure built on \<open>protectedProcedure\<close> then fails with \<open>UNAUTHORIZED\<close> before its input
  is checked and with the store untouched. But none of the five operations is built on
  it: each is a public procedure that takes the user id from its input, returns the
  same for every call context, and never fails with \<open>UNAUTHORIZED\<close>.
\<close>

theorem operations_are_public:
  "(user ctx = None \<longrightarrow>
      procedure_call protectedProcedure issues resolver ctx input d =
        (Inl \<lparr>code = UNAUTHORIZED,
              message = Message (js ''You must be logged in to access this resource'')\<rparr>, d))
   \<and> getChatHistory ctx h d = getChatHistory ctx' h d
   \<and> sendMessage e w ctx s d = sendMessage e w ctx' s d
   \<and> sendMessageStream e w ctx s d = sendMessageStream e w ctx' s d
   \<and> clearHistory ctx h d = clearHistory ctx' h d
   \<and> generateImage e w ctx g d = generateImage e w ctx' g d
   \<and> \<not> unauthorized (fst (getChatHistory ctx h d))
   \<and> \<not> unauthorized (fst (sendMessage e w ctx s d))
   \<and> \<not> unauthorized (fst (sendMessageStream e w ctx s d))
   \<and> \<not> unauthorized (fst (clearHistory ctx h d))
   \<and> \<not> unauthorized (fst (generateImage e w ctx g d))"
proof (intro conjI impI)
  assume "user ctx = None"
  then show "procedure_call protectedProcedure issues resolver ctx input d =
        (Inl \<lparr>code = UNAUTHORIZED,
              message = Message (js ''You must be logged in to access this resource'')\<rparr>, d)"
    by (simp add: procedure_call_def protectedProcedure_def t_procedure_def isAuthenticated_def
        trpc_error_def)
next
  show "getChatHistory ctx h d = getChatHistory ctx' h d"
    by (simp add: getChatHistory_def procedure_call_public getChatHistory_resolver_def split: list.split)
  show "sendMessage e w ctx s d = sendMessage e w ctx' s d"
    by (simp add: sendMessage_def procedure_call_public sendMessage_resolver_def split: list.split)
  show "sendMessageStream e w ctx s d = sendMessageStream e w ctx' s d"
    by (simp add: sendMessageStream_def procedure_call_public sendMessageStream_resolver_def split: list.split)
  show "clearHistory ctx h d = clearHistory ctx' h d"
    by (simp add: clearHistory_def procedure_call_public clearHistory_resolver_def split: list.split)
  show "generateImage e w ctx g d = generateImage e w ctx' g d"
    by (simp add: generateImage_def procedure_call_public generateImage_resolver_def split: list.split)
  show "\<not> unauthorized (fst (getChatHistory ctx h d))"
    by (simp add: unauthorized_def getChatHistory_def procedure_call_public
        getChatHistory_resolver_def trpc_error_def split: list.split prod.split sum.split)
  show "\<not> unauthorized (fst (sendMessage e w ctx s d))"
    by (simp add: unauthorized_def sendMessage_def procedure_call_public
        sendMessage_resolver_def sendMessage_catch_def Let_def trpc_error_def
        split: list.split prod.split sum.split)
  show "\<not> unauthorized (fst (sendMessageStream e w ctx s d))"
    by (simp add: unauthorized_def sendMessageStream_def procedure_call_public
        sendMessageStream_resolver_def Let_def
        split: list.split prod.split sum.split)
  show "\<not> unauthorized (fst (clearHistory ctx h d))"
    by (simp add: unauthorized_def clearHistory_def procedure_call_public
        clearHistory_resolver_def trpc_error_def split: list.split prod.split sum.split)
  show "\<not> unauthorized (fst (generateImage e w ctx g d))"
    by (simp add: unauthorized_def generateImage_def procedure_call_public
        generateImage_resolver_def generateImage_try_def Let_def trpc_error_def
        split: list.split prod.split sum.split thrown.split)
qed

text \<open>
  A call with no user: refused by a protected getChatHistory, were there one, and served
  by the actual one.
\<close>

theorem operations_are_public_witness:
  "user anonymous = None
   \<and> procedure_call protectedProcedure history_issues getChatHistory_resolver anonymous
        \<lparr>h_userId = js ''u1''\<rparr> example_db =
        (Inl \<lparr>code = UNAUTHORIZED,
              message = Message (js ''You must be logged in to access this resource'')\<rparr>, example_db)
   \<and> \<not> unauthorized (fst (getChatHistory anonymous \<lparr>h_userId = js ''u1''\<rparr> example_db))"
proof -
  have anon: "user anonymous = None" by (simp add: anonymous_def)
  show ?thesis
    using anon
      operations_are_public [of anonymous history_issues getChatHistory_resolver
        "\<lparr>h_userId = js ''u1''\<rparr>" example_db "\<lparr>h_userId = js ''u1''\<rparr>" anonymous]
    by simp
qed

end
